theory Spec2Isabelle
  imports Complex_Main "HOL-Library.Word" "HOL-Library.Sublist"
begin

unbundle bit_operations_syntax

section \<open>Live voice session engine of omni: a shallow embedding\<close>

text \<open>
  The engine lives in the React component \<^verbatim>\<open>App\<close> (the second document of
  \<^verbatim>\<open>src/types.ts\<close>): the audio utilities \<^verbatim>\<open>makeDistortionCurve\<close>,
  \<^verbatim>\<open>createAudioData\<close>, \<^verbatim>\<open>decodeAudioData\<close>, and the closures
  \<^verbatim>\<open>connectToLiveAPI\<close> (with its callbacks \<^verbatim>\<open>onopen\<close>, \<^verbatim>\<open>onmessage\<close>,
  \<^verbatim>\<open>onclose\<close>, \<^verbatim>\<open>onerror\<close>) and \<^verbatim>\<open>disconnect\<close>.

  JavaScript numbers are modelled as \<^typ>\<open>real\<close>. For the codec this is exact: a
  Float32 sample has a 24 bit significand, so its product with \<open>0x8000\<close> or \<open>0x7FFF\<close> is
  a double without rounding, and a 16 bit integer divided by \<open>32768\<close> is a Float32 without
  rounding. \<open>NaN\<close> is outside the model. Times on the audio clock are reals as well.

  A callback is one step of the model: it runs to its end, and the reactions it registered
  on the session promise run after it. What is awaited inside \<^verbatim>\<open>onmessage\<close> returns or
  throws. While a collaborator of a tool call is awaited, the render that is pending takes
  place and its effects run; no other callback comes in between.
\<close>

subsection \<open>Audio codec\<close>

text \<open>
  Storing a number in an \<^verbatim>\<open>Int16Array\<close> applies the language's \<open>ToInt16\<close>: truncate
  towards zero, then wrap modulo \<open>2^16\<close> into the signed range.
\<close>

definition ToInt16 :: "real \<Rightarrow> 16 word" where
  "ToInt16 v = word_of_int (if v < 0 then \<lceil>v\<rceil> else \<lfloor>v\<rfloor>)"

text \<open>The body of the first loop of \<^verbatim>\<open>createAudioData\<close> (and of \<^verbatim>\<open>createBlob\<close>).\<close>

definition pcm16 :: "real \<Rightarrow> 16 word" where
  "pcm16 x = (let s = max (- 1) (min 1 x) in
     ToInt16 (if s < 0 then s * 32768 else s * 32767))"

text \<open>
  \<^verbatim>\<open>new Uint8Array(int16.buffer)\<close> views each sample as two bytes, low byte first on
  the little-endian platforms browsers run on; \<^verbatim>\<open>String.fromCharCode\<close> turns each byte
  into one character of the binary string.
\<close>

definition int16_bytes :: "16 word \<Rightarrow> 8 word list" where
  "int16_bytes w = [ucast w, ucast (drop_bit 8 w)]"

definition binary_of :: "real list \<Rightarrow> string" where
  "binary_of samples =
     map (\<lambda>b. char_of (unat b)) (concat (map (\<lambda>x. int16_bytes (pcm16 x)) samples))"

record audio_data =
  data :: string
  mimeType :: string

text \<open>
  \<^verbatim>\<open>btoa\<close> and \<^verbatim>\<open>atob\<close> are the browser's base64 functions; the codec takes them
  as parameters.
\<close>

definition createAudioData :: "(string \<Rightarrow> string) \<Rightarrow> real list \<Rightarrow> audio_data" where
  "createAudioData btoa samples =
     \<lparr>data = btoa (binary_of samples), mimeType = ''audio/pcm;rate=16000''\<rparr>"

datatype js_error = InvalidCharacterError | RangeError | NotSupportedError

text \<open>
  \<^verbatim>\<open>new Int16Array(bytes.buffer)\<close> raises a \<open>RangeError\<close> when the byte length is odd;
  otherwise it reads the bytes pairwise, low byte first.
\<close>

fun Int16Array :: "8 word list \<Rightarrow> 16 word list option" where
  "Int16Array [] = Some []"
| "Int16Array [b] = None"
| "Int16Array (lo # hi # rest) =
     (case Int16Array rest of
        None \<Rightarrow> None
      | Some ws \<Rightarrow> Some ((push_bit 8 (ucast hi) OR ucast lo) # ws))"

record audio_buffer =
  channelData :: "real list"
  sampleRate :: nat

definition duration :: "audio_buffer \<Rightarrow> real" where
  "duration b = real (length (channelData b)) / real (sampleRate b)"

text \<open>
  \<^verbatim>\<open>decodeAudioData\<close>. \<^verbatim>\<open>atob\<close> raises on text that is not base64, and
  \<^verbatim>\<open>ctx.createBuffer\<close> raises \<open>NotSupportedError\<close> for a buffer of zero frames; the
  rejected promise is the \<open>Inl\<close> branch.
\<close>

definition decodeAudioData :: "(string \<Rightarrow> string option) \<Rightarrow> string \<Rightarrow> js_error + audio_buffer" where
  "decodeAudioData atob base64 =
     (case atob base64 of
        None \<Rightarrow> Inl InvalidCharacterError
      | Some binaryString \<Rightarrow>
          (case Int16Array (map of_char binaryString) of
             None \<Rightarrow> Inl RangeError
           | Some dataInt16 \<Rightarrow>
               if length dataInt16 = 0 then Inl NotSupportedError
               else Inr \<lparr>channelData = map (\<lambda>w. real_of_int (sint w) / 32768) dataInt16,
                         sampleRate = 24000\<rparr>))"

text \<open>
  Standard base64 with padding, as \<^verbatim>\<open>btoa\<close> produces it and \<^verbatim>\<open>atob\<close> reads it;
  used to run the codec on concrete samples.
\<close>

definition base64_digits :: string where
  "base64_digits = ''ABCDEFGHIJKLMNOPQRSTUVWXYZabcdefghijklmnopqrstuvwxyz0123456789+/''"

fun base64_btoa :: "string \<Rightarrow> string" where
  "base64_btoa [] = []"
| "base64_btoa [a] =
     (let n = (of_char a :: nat) * 65536 in
      [base64_digits ! (n div 262144), base64_digits ! (n div 4096 mod 64), CHR ''='', CHR ''=''])"
| "base64_btoa [a, b] =
     (let n = (of_char a :: nat) * 65536 + of_char b * 256 in
      [base64_digits ! (n div 262144), base64_digits ! (n div 4096 mod 64),
       base64_digits ! (n div 64 mod 64), CHR ''=''])"
| "base64_btoa (a # b # c # rest) =
     (let n = (of_char a :: nat) * 65536 + of_char b * 256 + of_char c in
      [base64_digits ! (n div 262144), base64_digits ! (n div 4096 mod 64),
       base64_digits ! (n div 64 mod 64), base64_digits ! (n mod 64)] @ base64_btoa rest)"

fun digit_index :: "char \<Rightarrow> string \<Rightarrow> nat option" where
  "digit_index c [] = None"
| "digit_index c (d # ds) =
     (if c = d then Some 0 else map_option Suc (digit_index c ds))"

fun base64_atob :: "string \<Rightarrow> string option" where
  "base64_atob [] = Some []"
| "base64_atob (a # b # c # d # rest) =
     (case (digit_index a base64_digits, digit_index b base64_digits) of
        (Some i, Some j) \<Rightarrow>
          if rest = [] \<and> c = CHR ''='' \<and> d = CHR ''='' then
            Some [char_of ((i * 64 + j) div 16)]
          else (case digit_index c base64_digits of
            None \<Rightarrow> None
          | Some k \<Rightarrow>
              if rest = [] \<and> d = CHR ''='' then
                Some [char_of ((i * 4096 + j * 64 + k) div 1024),
                      char_of ((i * 4096 + j * 64 + k) div 4 mod 256)]
              else (case (digit_index d base64_digits, base64_atob rest) of
                (Some l, Some bs) \<Rightarrow>
                  Some ([char_of ((i * 262144 + j * 4096 + k * 64 + l) div 65536),
                         char_of ((i * 262144 + j * 4096 + k * 64 + l) div 256 mod 256),
                         char_of ((i * 262144 + j * 4096 + k * 64 + l) mod 256)] @ bs)
              | _ \<Rightarrow> None))
      | _ \<Rightarrow> None)"
| "base64_atob _ = None"

subsection \<open>Inbox, log and the tool calls of the model\<close>

datatype AppMode = IDLE | LISTENING | THINKING | SPEAKING

datatype InboxItemType = ItemImage | ItemSearch | ItemText | ItemAudio

datatype role = User | Assistant | System

record SearchResult =
  title :: string
  url :: string

text \<open>The \<^verbatim>\<open>content: any\<close> of an inbox item, as far as the engine writes it.\<close>

datatype content = Str string | Links "SearchResult list" | Undefined

record InboxItem =
  item_id :: string
  item_type :: InboxItemType
  item_role :: role
  item_content :: content
  edited :: bool

text \<open>
  The part of the component's state the tool handlers work on: the log, the inbox with
  its mirror \<^verbatim>\<open>inboxRef\<close> (refreshed by an effect after each render) and the number of
  identifiers drawn so far from \<^verbatim>\<open>Math.random\<close>.
\<close>

record store =
  logs :: "(role \<times> string) list"
  inbox :: "InboxItem list"
  inboxRef :: "InboxItem list"
  drawn :: nat

definition addLog :: "role \<Rightarrow> string \<Rightarrow> store \<Rightarrow> store" where
  "addLog r txt st = st\<lparr>logs := logs st @ [(r, txt)]\<rparr>"

definition addToInbox ::
  "(nat \<Rightarrow> string) \<Rightarrow> InboxItemType \<Rightarrow> role \<Rightarrow> content \<Rightarrow> store \<Rightarrow> string \<times> store" where
  "addToInbox randomId ty r c st =
     (let new_id = randomId (drawn st) in
      (new_id, st\<lparr>inbox := inbox st @
          [\<lparr>item_id = new_id, item_type = ty, item_role = r, item_content = c, edited = False\<rparr>],
        drawn := Suc (drawn st)\<rparr>))"

definition editInboxMessage :: "string option \<Rightarrow> content \<Rightarrow> store \<Rightarrow> bool \<times> store" where
  "editInboxMessage mid newContent st =
     (if \<exists>item \<in> set (inboxRef st). Some (item_id item) = mid then
        (True, st\<lparr>inbox := map (\<lambda>item. if Some (item_id item) = mid
                                 then item\<lparr>item_content := newContent, edited := True\<rparr>
                                 else item) (inbox st)\<rparr>)
      else (False, st))"

text \<open>The effect \<^verbatim>\<open>inboxRef.current = inbox\<close> that runs after a render.\<close>

definition sync_inboxRef :: "store \<Rightarrow> store" where
  "sync_inboxRef st = st\<lparr>inboxRef := inbox st\<rparr>"

text \<open>
  A function call of the remote model: the SDK types \<^verbatim>\<open>id\<close>, \<^verbatim>\<open>name\<close> and
  \<^verbatim>\<open>args\<close> as optional; argument values are strings by the declared schemas, and a
  missing argument reads as \<^verbatim>\<open>undefined\<close> (\<open>None\<close>).
\<close>

record FunctionCall =
  fc_id :: "string option"
  fc_name :: "string option"
  fc_args :: "(string \<rightharpoonup> string) option"

datatype tool_result = Result string | Error string

record FunctionResponse =
  fr_id :: "string option"
  fr_name :: "string option"
  response :: tool_result

text \<open>
  The collaborators a tool call awaits. Each either returns or throws. The tool loop is
  written against any collaborators, so the model takes them as parameters (those of this
  repository are given below, after the record): the functions of
  \<^verbatim>\<open>geminiService\<close>, the camera capture, the identifiers drawn for inbox items, the
  browser's base64 pair, whether \<^verbatim>\<open>process.env.API_KEY\<close> is set, whether
  \<^verbatim>\<open>getUserMedia\<close> grants a microphone stream, and the draws of \<^verbatim>\<open>Math.random\<close>
  for the noise buffer.
\<close>

datatype 'a outcome = Returns 'a | Throws

record collaborators =
  generateImage :: "string option \<Rightarrow> string option outcome"
  editImage :: "content \<Rightarrow> string option \<Rightarrow> string option outcome"
  searchWeb :: "string option \<Rightarrow> (string \<times> SearchResult list) outcome"
  analyzeImage :: "content \<Rightarrow> string option \<Rightarrow> string outcome"
  thinkHard :: "string option \<Rightarrow> string outcome"
  handleCapture :: "string option outcome"
  randomId :: "nat \<Rightarrow> string"
  atob :: "string \<Rightarrow> string option"
  btoa :: "string \<Rightarrow> string"
  api_key :: bool
  getUserMedia :: bool
  random :: "nat \<Rightarrow> real"

text \<open>JavaScript's truthiness of a string that may be \<^verbatim>\<open>null\<close>, and its interpolation.\<close>

definition truthy :: "string option \<Rightarrow> bool" where
  "truthy v = (case v of None \<Rightarrow> False | Some str \<Rightarrow> str \<noteq> [])"

definition interpolate :: "string option \<Rightarrow> string" where
  "interpolate v = (case v of None \<Rightarrow> ''undefined'' | Some str \<Rightarrow> str)"

definition arg_content :: "string option \<Rightarrow> content" where
  "arg_content v = (case v of None \<Rightarrow> Undefined | Some str \<Rightarrow> Str str)"

fun show_nat :: "nat \<Rightarrow> string" where
  "show_nat n = (if n < 10 then [char_of (48 + n)] else show_nat (n div 10) @ [char_of (48 + n mod 10)])"

definition join :: "string \<Rightarrow> string list \<Rightarrow> string" where
  "join sep parts = (case parts of [] \<Rightarrow> [] | p # ps \<Rightarrow> p @ concat (map (\<lambda>q. sep @ q) ps))"

definition show_role :: "role \<Rightarrow> string" where
  "show_role r = (case r of User \<Rightarrow> ''user'' | Assistant \<Rightarrow> ''assistant'' | System \<Rightarrow> ''system'')"

definition show_content :: "content \<Rightarrow> string" where
  "show_content c = (case c of
       Str str \<Rightarrow> str
     | Links ls \<Rightarrow> join '','' (map (\<lambda>_. ''[object Object]'') ls)
     | Undefined \<Rightarrow> ''undefined'')"

definition lastImage :: "store \<Rightarrow> InboxItem option" where
  "lastImage st = find (\<lambda>i. item_type i = ItemImage) (rev (inboxRef st))"

subsection \<open>\<^verbatim>\<open>geminiService\<close>: the collaborators of this repository\<close>

text \<open>
  Each function of \<^verbatim>\<open>src/services/geminiService.ts\<close> makes one request to the remote
  model (\<^verbatim>\<open>ai.models.generateContent\<close>) inside a \<^verbatim>\<open>try\<close> block whose \<^verbatim>\<open>catch\<close>
  returns a fallback value: none of them throws. The remote model is a parameter that
  returns a response or throws. A request is its model name, its text and its inline
  image data; a response is what the functions read of it: \<^verbatim>\<open>response.text\<close>, the
  grounding chunks of the first candidate (each with its \<^verbatim>\<open>web\<close> title and uri, if
  any) and, for each content part of the first candidate, its inline data, if any.
  Creating the client (\<^verbatim>\<open>getAI\<close>) is taken not to throw: a session runs only with an
  API key.
\<close>

record api_request =
  req_model :: string
  req_text :: "string option"
  req_inline :: "string option"

record api_response =
  resp_text :: "string option"
  resp_chunks :: "(string \<times> string) option list option"
  resp_parts :: "string option list"

type_synonym remote = "api_request \<Rightarrow> api_response outcome"

definition text_or :: "string option \<Rightarrow> string \<Rightarrow> string" where
  "text_or v fallback = (case v of None \<Rightarrow> fallback | Some str \<Rightarrow> if str = [] then fallback else str)"

definition geminiService_searchWeb :: "remote \<Rightarrow> string option \<Rightarrow> string \<times> SearchResult list" where
  "geminiService_searchWeb generateContent query =
     (case generateContent \<lparr>req_model = ''gemini-2.5-flash'',
             req_text = Some (''Search the web for: '' @
               (case query of None \<Rightarrow> ''undefined'' | Some q \<Rightarrow> q) @
               ''. Provide a concise summary.''),
             req_inline = None\<rparr> of
        Throws \<Rightarrow> (''I encountered an error searching the web.'', [])
      | Returns reply \<Rightarrow>
          (text_or (resp_text reply) ''No results found.'',
           (case resp_chunks reply of
              None \<Rightarrow> []
            | Some chunks \<Rightarrow>
                concat (map (\<lambda>c. case c of
                                  None \<Rightarrow> []
                                | Some (t, uri) \<Rightarrow> if uri = [] then [] else [\<lparr>title = t, url = uri\<rparr>])
                        chunks))))"

text \<open>The first part with inline data, as a data URL; \<^verbatim>\<open>null\<close> when there is none.\<close>

definition first_image :: "string option list \<Rightarrow> string option" where
  "first_image parts =
     (case filter (\<lambda>p. p \<noteq> None) parts of
        Some d # rest \<Rightarrow> Some (''data:image/png;base64,'' @ d)
      | _ \<Rightarrow> None)"

definition geminiService_generateImage :: "remote \<Rightarrow> string option \<Rightarrow> string option" where
  "geminiService_generateImage generateContent prompt =
     (case generateContent \<lparr>req_model = ''gemini-2.5-flash-image'', req_text = prompt,
             req_inline = None\<rparr> of
        Throws \<Rightarrow> None
      | Returns reply \<Rightarrow> first_image (resp_parts reply))"

text \<open>
  \<^verbatim>\<open>base64Image.split(',')[1] || base64Image\<close>: the text between the first comma and
  the second, or the whole text when there is no comma or nothing behind it.
\<close>

definition strip_prefix :: "string \<Rightarrow> string" where
  "strip_prefix base64Image =
     (let behind = drop 1 (dropWhile (\<lambda>c. c \<noteq> CHR '','') base64Image);
          second = takeWhile (\<lambda>c. c \<noteq> CHR '','') behind
      in if second = [] then base64Image else second)"

text \<open>
  The image handed to \<^verbatim>\<open>editImage\<close> and \<^verbatim>\<open>analyzeImage\<close> is the \<^verbatim>\<open>content\<close> of
  an inbox item or a camera frame; \<^verbatim>\<open>split\<close> on anything but a string throws inside
  the \<^verbatim>\<open>try\<close> block.
\<close>

definition geminiService_editImage :: "remote \<Rightarrow> content \<Rightarrow> string option \<Rightarrow> string option" where
  "geminiService_editImage generateContent base64Image instruction =
     (case base64Image of
        Str img \<Rightarrow>
          (case generateContent \<lparr>req_model = ''gemini-2.5-flash-image'', req_text = instruction,
                  req_inline = Some (strip_prefix img)\<rparr> of
             Throws \<Rightarrow> None
           | Returns reply \<Rightarrow> first_image (resp_parts reply))
      | _ \<Rightarrow> None)"

definition geminiService_analyzeImage :: "remote \<Rightarrow> content \<Rightarrow> string option \<Rightarrow> string" where
  "geminiService_analyzeImage generateContent base64Image prompt =
     (case base64Image of
        Str img \<Rightarrow>
          (case generateContent \<lparr>req_model = ''gemini-flash-latest'', req_text = prompt,
                  req_inline = Some (strip_prefix img)\<rparr> of
             Throws \<Rightarrow> ''Error analyzing the image.''
           | Returns reply \<Rightarrow> text_or (resp_text reply) ''I couldn't analyze the image.'')
      | _ \<Rightarrow> ''Error analyzing the image.'')"

definition geminiService_thinkHard :: "remote \<Rightarrow> string option \<Rightarrow> string" where
  "geminiService_thinkHard generateContent query =
     (case generateContent \<lparr>req_model = ''gemini-2.5-pro'', req_text = query,
             req_inline = None\<rparr> of
        Throws \<Rightarrow> ''Error during thinking process.''
      | Returns reply \<Rightarrow> text_or (resp_text reply) ''I couldn't complete the thought.'')"

text \<open>Collaborators whose five services are those of \<^verbatim>\<open>geminiService\<close> over a remote model.\<close>

definition with_geminiService :: "remote \<Rightarrow> collaborators \<Rightarrow> collaborators" where
  "with_geminiService generateContent env =
     env\<lparr>generateImage := (\<lambda>prompt. Returns (geminiService_generateImage generateContent prompt)),
         editImage := (\<lambda>img instruction.
            Returns (geminiService_editImage generateContent img instruction)),
         searchWeb := (\<lambda>query. Returns (geminiService_searchWeb generateContent query)),
         analyzeImage := (\<lambda>img prompt.
            Returns (geminiService_analyzeImage generateContent img prompt)),
         thinkHard := (\<lambda>query. Returns (geminiService_thinkHard generateContent query))\<rparr>"

subsection \<open>Tool dispatch: the body of the loop over \<^verbatim>\<open>message.toolCall.functionCalls\<close>\<close>

text \<open>
  Each branch of the \<^verbatim>\<open>try\<close> block returns the store as the branch left it and the
  \<^verbatim>\<open>result\<close> object. Reading a property of \<^verbatim>\<open>fc.args\<close> when the call has no
  arguments throws a \<open>TypeError\<close>; that and a throwing collaborator end in the
  \<^verbatim>\<open>catch\<close> clause, which sets \<^verbatim>\<open>result = { error: "Tool execution failed" }\<close>
  and keeps what the branch had already written.

  An \<^verbatim>\<open>await\<close> gives the event loop its turn: the render that an earlier
  \<^verbatim>\<open>setInbox\<close> asked for takes place and its effect \<^verbatim>\<open>inboxRef.current = inbox\<close>
  runs, so when the branch goes on behind an awaited collaborator, \<^verbatim>\<open>inboxRef\<close> is
  the inbox (\<open>sync_inboxRef\<close>). Between two calls that await nothing there is no render.
\<close>

definition tool_failed :: tool_result where
  "tool_failed = Error ''Tool execution failed''"

definition run_generate_image :: "collaborators \<Rightarrow> FunctionCall \<Rightarrow> store \<Rightarrow> store \<times> tool_result" where
  "run_generate_image env fc st =
     (case fc_args fc of
        None \<Rightarrow> (st, tool_failed)
      | Some args \<Rightarrow>
          let st1 = addLog Assistant (''Generating image: '' @ interpolate (args ''prompt'')) st;
              awaited = generateImage env (args ''prompt'');
              st2 = sync_inboxRef st1
          in (case awaited of
                Throws \<Rightarrow> (st2, tool_failed)
              | Returns imgData \<Rightarrow>
                  if truthy imgData then
                    (snd (addToInbox (randomId env) ItemImage Assistant (arg_content imgData) st2),
                     Result ''Okay, I've sent over the image.'')
                  else (st2, Error ''Failed to generate image.'')))"

definition run_edit_current_image :: "collaborators \<Rightarrow> FunctionCall \<Rightarrow> store \<Rightarrow> store \<times> tool_result" where
  "run_edit_current_image env fc st =
     (case lastImage st of
        None \<Rightarrow> (st, Error ''No image found in inbox history to edit.'')
      | Some img \<Rightarrow>
          let st1 = addLog Assistant ''Editing image...'' st in
          (case fc_args fc of
             None \<Rightarrow> (st1, tool_failed)
           | Some args \<Rightarrow>
               let awaited = editImage env (item_content img) (args ''instruction'');
                   st2 = sync_inboxRef st1
               in (case awaited of
                     Throws \<Rightarrow> (st2, tool_failed)
                   | Returns newImg \<Rightarrow>
                       if truthy newImg then
                         (snd (addToInbox (randomId env) ItemImage Assistant (arg_content newImg) st2),
                          Result ''Okay, I've sent over the edited image.'')
                       else (st2, Error ''Failed to edit image.''))))"

definition run_search_web :: "collaborators \<Rightarrow> FunctionCall \<Rightarrow> store \<Rightarrow> store \<times> tool_result" where
  "run_search_web env fc st =
     (case fc_args fc of
        None \<Rightarrow> (st, tool_failed)
      | Some args \<Rightarrow>
          let st1 = addLog Assistant (''Searching web for: '' @ interpolate (args ''query'')) st;
              awaited = searchWeb env (args ''query'');
              st2 = sync_inboxRef st1
          in (case awaited of
                Throws \<Rightarrow> (st2, tool_failed)
              | Returns (txt, links) \<Rightarrow>
                  (snd (addToInbox (randomId env) ItemSearch Assistant (Links links) st2),
                   Result txt)))"

definition run_see_and_analyze :: "collaborators \<Rightarrow> FunctionCall \<Rightarrow> store \<Rightarrow> store \<times> tool_result" where
  "run_see_and_analyze env fc st =
     (let st1 = addLog Assistant ''Looking at camera...'' st;
          awaited = handleCapture env;
          st2 = sync_inboxRef st1
      in (case awaited of
            Throws \<Rightarrow> (st2, tool_failed)
          | Returns frame \<Rightarrow>
              if truthy frame then
                (case fc_args fc of
                   None \<Rightarrow> (st2, tool_failed)
                 | Some args \<Rightarrow>
                     (case analyzeImage env (arg_content frame) (args ''question'') of
                        Throws \<Rightarrow> (st2, tool_failed)
                      | Returns analysis \<Rightarrow> (st2, Result analysis)))
              else (st2, Error ''Could not access camera.'')))"

definition run_analyze_uploaded_image ::
  "collaborators \<Rightarrow> FunctionCall \<Rightarrow> store \<Rightarrow> store \<times> tool_result" where
  "run_analyze_uploaded_image env fc st =
     (let st1 = addLog Assistant ''Analyzing uploaded image...'' st in
      (case lastImage st1 of
         None \<Rightarrow> (st1, Error ''No uploaded image found in inbox.'')
       | Some img \<Rightarrow>
           (case fc_args fc of
              None \<Rightarrow> (st1, tool_failed)
            | Some args \<Rightarrow>
                let awaited = analyzeImage env (item_content img) (args ''question'');
                    st2 = sync_inboxRef st1
                in (case awaited of
                      Throws \<Rightarrow> (st2, tool_failed)
                    | Returns analysis \<Rightarrow> (st2, Result analysis)))))"

definition run_read_inbox_messages :: "store \<Rightarrow> store \<times> tool_result" where
  "run_read_inbox_messages st =
     (let st1 = addLog Assistant ''Reading inbox messages...'' st;
          textMessages = filter (\<lambda>i. item_type i = ItemText) (inboxRef st1)
      in if length textMessages > 0 then
           (st1, Result (''Found '' @ show_nat (length textMessages) @ '' message(s):'' @
              [CHR 0x0A, CHR 0x0A] @
              join [CHR 0x0A, CHR 0x0A, CHR ''-'', CHR ''-'', CHR ''-'', CHR 0x0A, CHR 0x0A]
                (map (\<lambda>m. ''[ID: '' @ item_id m @ ''] '' @ show_role (item_role m) @ '': '' @
                           show_content (item_content m)) textMessages)))
         else (st1, Result ''No text messages found in inbox.''))"

definition run_edit_text_message :: "FunctionCall \<Rightarrow> store \<Rightarrow> store \<times> tool_result" where
  "run_edit_text_message fc st =
     (let st1 = addLog Assistant ''Editing text message...'' st in
      (case fc_args fc of
         None \<Rightarrow> (st1, tool_failed)
       | Some args \<Rightarrow>
           (case editInboxMessage (args ''messageId'') (arg_content (args ''newContent'')) st1 of
              (success, st2) \<Rightarrow>
                if success then (st2, Result ''Message updated successfully.'')
                else (st2, Error ''Message not found or update failed.''))))"

definition run_send_text_response :: "collaborators \<Rightarrow> FunctionCall \<Rightarrow> store \<Rightarrow> store \<times> tool_result" where
  "run_send_text_response env fc st =
     (let st1 = addLog Assistant ''Sending text response...'' st in
      (case fc_args fc of
         None \<Rightarrow> (st1, tool_failed)
       | Some args \<Rightarrow>
           (case addToInbox (randomId env) ItemText Assistant (arg_content (args ''message'')) st1 of
              (new_id, st2) \<Rightarrow> (st2, Result (''Message sent to inbox. ID: '' @ new_id)))))"

definition run_think_deeply :: "collaborators \<Rightarrow> FunctionCall \<Rightarrow> store \<Rightarrow> store \<times> tool_result" where
  "run_think_deeply env fc st =
     (let st1 = addLog Assistant ''Thinking deeply...'' st in
      (case fc_args fc of
         None \<Rightarrow> (st1, tool_failed)
       | Some args \<Rightarrow>
           let awaited = thinkHard env (args ''problem'');
               st2 = sync_inboxRef st1
           in (case awaited of
                 Throws \<Rightarrow> (st2, tool_failed)
               | Returns thought \<Rightarrow> (st2, Result thought))))"

text \<open>
  \<^verbatim>\<open>let result = { error: "Unknown tool" }\<close> followed by the chain of comparisons of
  \<^verbatim>\<open>fc.name\<close>: the value of \<^verbatim>\<open>result\<close> when the \<^verbatim>\<open>try\<close> statement is left.
\<close>

definition exec_tool :: "collaborators \<Rightarrow> FunctionCall \<Rightarrow> store \<Rightarrow> store \<times> tool_result" where
  "exec_tool env fc st =
     (if fc_name fc = Some ''generate_image'' then run_generate_image env fc st
      else if fc_name fc = Some ''edit_current_image'' then run_edit_current_image env fc st
      else if fc_name fc = Some ''search_web'' then run_search_web env fc st
      else if fc_name fc = Some ''see_and_analyze'' then run_see_and_analyze env fc st
      else if fc_name fc = Some ''analyze_uploaded_image'' then run_analyze_uploaded_image env fc st
      else if fc_name fc = Some ''read_inbox_messages'' then run_read_inbox_messages st
      else if fc_name fc = Some ''edit_text_message'' then run_edit_text_message fc st
      else if fc_name fc = Some ''send_text_response'' then run_send_text_response env fc st
      else if fc_name fc = Some ''think_deeply'' then run_think_deeply env fc st
      else (st, Error ''Unknown tool''))"

text \<open>The names the \<^verbatim>\<open>try\<close> block knows.\<close>

definition known_tools :: "string list" where
  "known_tools = [''generate_image'', ''edit_current_image'', ''search_web'', ''see_and_analyze'',
     ''analyze_uploaded_image'', ''read_inbox_messages'', ''edit_text_message'',
     ''send_text_response'', ''think_deeply'']"

subsection \<open>Audio graph, noise bed and volume\<close>

datatype filter_type = Highpass | Lowpass

datatype audio_node =
    BufferSource
  | Analyser nat
  | BiquadFilter filter_type real
  | WaveShaper "real list" string
  | Gain real
  | Destination

type_synonym connection = "audio_node \<times> audio_node"

definition makeDistortionCurve :: "real \<Rightarrow> real list" where
  "makeDistortionCurve amount =
     (let k = amount; n_samples = 44100; deg = pi / 180 in
      map (\<lambda>i. let x = real i * 2 / real n_samples - 1 in
                 (3 + k) * x * 20 * deg / (pi + k * \<bar>x\<bar>)) [0..<n_samples])"

text \<open>
  The \<^verbatim>\<open>connect\<close> calls \<^verbatim>\<open>onmessage\<close> makes for one decoded buffer, in the order
  of the source: the analyser tap, then either the phone chain or the direct connection.
\<close>

definition playback_graph :: "bool \<Rightarrow> connection list" where
  "playback_graph callFilter =
     (BufferSource, Analyser 32) #
     (if callFilter then
        (let highpass = BiquadFilter Highpass 300;
             lowpass = BiquadFilter Lowpass 3400;
             gainNode = Gain 0.85;
             distortion = WaveShaper (makeDistortionCurve 5) ''4x''
         in [(BufferSource, highpass), (highpass, distortion), (distortion, lowpass),
             (lowpass, gainNode), (gainNode, Destination)])
      else [(BufferSource, Destination)])"

text \<open>
  The routes of a graph from a node to the destination: for each, the nodes the signal
  passes through on the way, in order.
\<close>

fun routes :: "nat \<Rightarrow> connection list \<Rightarrow> audio_node \<Rightarrow> audio_node list list" where
  "routes 0 g n = []"
| "routes (Suc fuel) g n =
     concat (map (\<lambda>(a, b). if a = n
                            then (if b = Destination then [[]] else map ((#) b) (routes fuel g b))
                            else []) g)"

definition output_routes :: "connection list \<Rightarrow> audio_node list list" where
  "output_routes g = routes (length g) g BufferSource"

text \<open>
  The noise bed of \<^verbatim>\<open>connectToLiveAPI\<close>: the loop that fills the buffer, with the
  draws of \<^verbatim>\<open>Math.random\<close> numbered from \<open>k\<close>. A sample takes one draw for the white
  noise, one for the crackle test and, when that is below \<open>0.002\<close>, one for the spike.
\<close>

record pink =
  b0 :: real
  b1 :: real
  b2 :: real
  b3 :: real
  b4 :: real
  b5 :: real
  b6 :: real

fun noise_samples :: "(nat \<Rightarrow> real) \<Rightarrow> nat \<Rightarrow> nat \<Rightarrow> pink \<Rightarrow> real list" where
  "noise_samples rnd 0 k p = []"
| "noise_samples rnd (Suc n) k p =
     (let white = rnd k * 2 - 1;
          c0 = 0.99886 * b0 p + white * 0.0555179;
          c1 = 0.99332 * b1 p + white * 0.0750759;
          c2 = 0.96900 * b2 p + white * 0.1538520;
          c3 = 0.86650 * b3 p + white * 0.3104856;
          c4 = 0.55000 * b4 p + white * 0.5329522;
          c5 = - 0.7616 * b5 p - white * 0.0168980;
          sample = (c0 + c1 + c2 + c3 + c4 + c5 + b6 p + white * 0.5362) * 0.11;
          crackle = rnd (k + 1) < 0.002;
          out = (if crackle then sample + (rnd (k + 2) * 2 - 1) * 0.3 else sample);
          p' = \<lparr>b0 = c0, b1 = c1, b2 = c2, b3 = c3, b4 = c4, b5 = c5, b6 = white * 0.115926\<rparr>
      in out # noise_samples rnd n (if crackle then k + 3 else k + 2) p')"

record noise_source =
  noise_buffer :: "real list"
  loop :: bool
  noise_gain :: real

definition make_noise :: "(nat \<Rightarrow> real) \<Rightarrow> nat \<Rightarrow> noise_source" where
  "make_noise rnd rate =
     \<lparr>noise_buffer = noise_samples rnd (rate * 2) 0
        \<lparr>b0 = 0, b1 = 0, b2 = 0, b3 = 0, b4 = 0, b5 = 0, b6 = 0\<rparr>,
      loop = True, noise_gain = 0.018\<rparr>"

text \<open>
  The two volume computations: the RMS of a capture frame in \<^verbatim>\<open>onaudioprocess\<close>, and
  the boosted average of the analyser's bytes in the 50 ms interval of \<^verbatim>\<open>onmessage\<close>.
  A capture frame has 4096 samples and the analyser 16 bins; on an empty array JavaScript
  divides by zero and gives \<open>NaN\<close>, so the properties below are stated for non-empty
  arrays.
\<close>

definition capture_rms :: "real list \<Rightarrow> real" where
  "capture_rms inputData =
     sqrt (sum_list (map (\<lambda>x. x * x) inputData) / real (length inputData))"

definition output_volume :: "8 word list \<Rightarrow> real" where
  "output_volume bins =
     (let avg = real (sum_list (map unat bins)) / real (length bins) / 255 in avg * 8)"

subsection \<open>Engine state\<close>

text \<open>
  A promise is pending, fulfilled or rejected. \<^verbatim>\<open>sessionPromise.then(cb)\<close> never runs
  \<open>cb\<close> at once: on a fulfilled promise it queues \<open>cb\<close> as a microtask, which runs when the
  synchronous code of the current callback has finished; on a pending promise \<open>cb\<close> waits
  for the fulfilment; on a rejected promise it never runs. The callbacks the engine
  registers this way are the four reactions.
\<close>

datatype promise = Pending | Fulfilled | Rejected

datatype reaction =
    SendFrame audio_data
  | SendGreeting string
  | SendResponse FunctionResponse
  | CloseSession

text \<open>What the engine does to the transport and to audio nodes, in the order it happens.\<close>

datatype effect =
    SendRealtimeInput audio_data
  | SendClientContent string
  | SendToolResponse FunctionResponse
  | SessionClose
  | CaptureCallbackDetached
  | ProcessorDisconnected
  | MicSourceDisconnected
  | StreamTracksStopped
  | NoiseStarted
  | NoiseStopped
  | OutputContextClosed
  | SourceStarted real audio_buffer "connection list"

datatype handle = Handle

text \<open>
  The React state and refs of \<^verbatim>\<open>App\<close> that the engine uses, the two values the
  callbacks of a session close over (\<^verbatim>\<open>stream\<close> and \<^verbatim>\<open>callFilterEnabled\<close> as they
  were when \<^verbatim>\<open>connectToLiveAPI\<close> ran), the reactions waiting on the session promise,
  the microtask queue and the effects so far. An audio context is its sample rate.
\<close>

record app_state =
  mode :: AppMode
  connected :: bool
  volume :: real
  callFilterEnabled :: bool
  ui :: store
  audioContextRef :: "nat option"
  inputContextRef :: "nat option"
  nextStartTimeRef :: real
  sessionRef :: "promise option"
  processorRef :: "handle option"
  sourceRef :: "handle option"
  streamRef :: "handle option"
  bgNoiseRef :: "noise_source option"
  stream :: "handle option"
  callFilterAtConnect :: bool
  waiters :: "reaction list"
  microtasks :: "reaction list"
  effects :: "effect list"

definition emit :: "effect \<Rightarrow> app_state \<Rightarrow> app_state" where
  "emit e s = s\<lparr>effects := effects s @ [e]\<rparr>"

definition add_log :: "role \<Rightarrow> string \<Rightarrow> app_state \<Rightarrow> app_state" where
  "add_log r txt s = s\<lparr>ui := addLog r txt (ui s)\<rparr>"

definition then_session :: "reaction \<Rightarrow> app_state \<Rightarrow> app_state" where
  "then_session r s =
     (case sessionRef s of
        Some Fulfilled \<Rightarrow> s\<lparr>microtasks := microtasks s @ [r]\<rparr>
      | Some Pending \<Rightarrow> s\<lparr>waiters := waiters s @ [r]\<rparr>
      | _ \<Rightarrow> s)"

definition run_reaction :: "reaction \<Rightarrow> app_state \<Rightarrow> app_state" where
  "run_reaction r s =
     (case r of
        SendFrame b64Data \<Rightarrow>
          if processorRef s \<noteq> None then emit (SendRealtimeInput b64Data) s else s
      | SendGreeting txt \<Rightarrow> emit (SendClientContent txt) s
      | SendResponse fr \<Rightarrow> emit (SendToolResponse fr) s
      | CloseSession \<Rightarrow> emit SessionClose s)"

text \<open>The microtask checkpoint after a callback: the queued reactions run in order.\<close>

definition drain :: "app_state \<Rightarrow> app_state" where
  "drain s = fold run_reaction (microtasks s) (s\<lparr>microtasks := []\<rparr>)"

definition job :: "(app_state \<Rightarrow> app_state) \<Rightarrow> app_state \<Rightarrow> app_state" where
  "job h s = drain (h s)"

subsection \<open>\<^verbatim>\<open>disconnect\<close>\<close>

definition disconnect :: "app_state \<Rightarrow> app_state" where
  "disconnect s =
     (let s1 = (if sessionRef s \<noteq> None then then_session CloseSession s else s);
          s2 = (if processorRef s1 \<noteq> None
                then (emit ProcessorDisconnected (emit CaptureCallbackDetached s1))\<lparr>processorRef := None\<rparr>
                else s1);
          s3 = (if sourceRef s2 \<noteq> None
                then (emit MicSourceDisconnected s2)\<lparr>sourceRef := None\<rparr> else s2);
          s4 = (if streamRef s3 \<noteq> None
                then (emit StreamTracksStopped s3)\<lparr>streamRef := None\<rparr> else s3);
          s5 = (if bgNoiseRef s4 \<noteq> None
                then (emit NoiseStopped s4)\<lparr>bgNoiseRef := None\<rparr> else s4);
          s6 = (if audioContextRef s5 \<noteq> None
                then (emit OutputContextClosed s5)\<lparr>audioContextRef := None\<rparr> else s5)
      in s6\<lparr>connected := False, mode := IDLE, volume := 0\<rparr>)"

subsection \<open>\<^verbatim>\<open>connectToLiveAPI\<close> and its callbacks\<close>

definition connectToLiveAPI :: "collaborators \<Rightarrow> app_state \<Rightarrow> app_state" where
  "connectToLiveAPI env s =
     (if \<not> api_key env then s
      else
        let s1 = add_log System ''Connecting to WebSocket...'' (s\<lparr>mode := LISTENING, connected := True\<rparr>);
            s2 = (if audioContextRef s1 = None then s1\<lparr>audioContextRef := Some 24000\<rparr> else s1);
            s3 = (if inputContextRef s2 = None then s2\<lparr>inputContextRef := Some 16000\<rparr> else s2);
            s4 = (if callFilterEnabled s3 \<and> bgNoiseRef s3 = None
                  then (case audioContextRef s3 of
                          None \<Rightarrow> s3
                        | Some rate \<Rightarrow>
                            (emit NoiseStarted s3)\<lparr>bgNoiseRef := Some (make_noise (random env) rate)\<rparr>)
                  else s3);
            s5 = (if getUserMedia env then s4\<lparr>streamRef := Some Handle\<rparr>
                  else add_log System ''Microphone not found. Proceeding in Text/Listen mode.'' s4)
        in s5\<lparr>stream := (if getUserMedia env then Some Handle else None),
              callFilterAtConnect := callFilterEnabled s,
              sessionRef := Some Pending\<rparr>)"

definition contexts :: "string list" where
  "contexts = [''User just opened the app. Be warm.'',
     ''User is ready to work. Be professional but brief.'',
     ''User looks relaxed. Be casual.'',
     ''It's a new session. Say something interesting.'',
     ''User might need help. Be attentive.'']"

text \<open>\<^verbatim>\<open>onopen\<close>; \<open>r\<close> is the value \<^verbatim>\<open>Math.random()\<close> returns for the greeting.\<close>

definition onopen :: "real \<Rightarrow> app_state \<Rightarrow> app_state" where
  "onopen r s =
     (let s1 = add_log System ''Connected!'' s;
          s2 = (if stream s1 \<noteq> None \<and> inputContextRef s1 \<noteq> None
                then s1\<lparr>sourceRef := Some Handle, processorRef := Some Handle\<rparr> else s1);
          randomContext = (if 0 \<le> r \<and> r < 1 then contexts ! nat \<lfloor>r * real (length contexts)\<rfloor>
                           else ''undefined'')
      in then_session (SendGreeting (''System Event: '' @ randomContext @
           ''. Greet the user naturally based on this context. Keep it short.'')) s2)"

text \<open>\<^verbatim>\<open>processor.onaudioprocess\<close>, for one capture frame.\<close>

definition onaudioprocess :: "collaborators \<Rightarrow> real list \<Rightarrow> app_state \<Rightarrow> app_state" where
  "onaudioprocess env inputData s =
     (if processorRef s = None then s
      else
        let s1 = s\<lparr>volume := capture_rms inputData\<rparr>;
            b64Data = createAudioData (btoa env) inputData
        in then_session (SendFrame b64Data) s1)"

text \<open>
  The audio part of \<^verbatim>\<open>onmessage\<close>; \<open>now\<close> is \<^verbatim>\<open>ctx.currentTime\<close>. The result says
  whether the callback goes on: when \<^verbatim>\<open>decodeAudioData\<close> rejects (also for a context
  that \<^verbatim>\<open>disconnect\<close> has set to \<^verbatim>\<open>null\<close>) the \<^verbatim>\<open>await\<close> throws and the rest of
  the callback does not run.
\<close>

definition play_audio :: "collaborators \<Rightarrow> real \<Rightarrow> string \<Rightarrow> app_state \<Rightarrow> bool \<times> app_state" where
  "play_audio env now base64 s =
     (let s1 = s\<lparr>mode := SPEAKING\<rparr> in
      case audioContextRef s1 of
        None \<Rightarrow> (False, s1)
      | Some ctx \<Rightarrow>
          (case decodeAudioData (atob env) base64 of
             Inl err \<Rightarrow> (False, s1)
           | Inr buffer \<Rightarrow>
               let start = max now (nextStartTimeRef s1);
                   s2 = emit (SourceStarted start buffer (playback_graph (callFilterAtConnect s1))) s1
               in (True, s2\<lparr>nextStartTimeRef := start + duration buffer\<rparr>)))"

text \<open>\<^verbatim>\<open>source.onended\<close>; \<open>now\<close> is \<^verbatim>\<open>ctx.currentTime\<close>.\<close>

definition onended :: "real \<Rightarrow> app_state \<Rightarrow> app_state" where
  "onended now s = (if now \<ge> nextStartTimeRef s - 0.1 then s\<lparr>mode := LISTENING\<rparr> else s)"

text \<open>One tick of the 50 ms interval that watches the analyser.\<close>

definition volume_tick :: "8 word list \<Rightarrow> app_state \<Rightarrow> app_state" where
  "volume_tick bins s = s\<lparr>volume := output_volume bins\<rparr>"

text \<open>
  The loop over the function calls of a tool-call message: each call runs on the store
  the calls before it left, with \<^verbatim>\<open>inboxRef\<close> as the renders during their awaits left
  it, and its response is registered on the session promise.
\<close>

fun tool_loop :: "collaborators \<Rightarrow> FunctionCall list \<Rightarrow> app_state \<Rightarrow> app_state" where
  "tool_loop env [] s = s"
| "tool_loop env (fc # fcs) s =
     (case exec_tool env fc (ui s) of
        (st, result) \<Rightarrow>
          tool_loop env fcs
            (then_session (SendResponse \<lparr>fr_id = fc_id fc, fr_name = fc_name fc, response = result\<rparr>)
               (s\<lparr>ui := st\<rparr>)))"

text \<open>
  What \<^verbatim>\<open>onmessage\<close> reads of a server message: \<open>audioData\<close> is
  \<^verbatim>\<open>message.serverContent?.modelTurn?.parts?.[0]?.inlineData?.data\<close> and \<open>toolCall\<close>
  is \<^verbatim>\<open>message.toolCall.functionCalls\<close>, each absent or present.
\<close>

record LiveServerMessage =
  audioData :: "string option"
  toolCall :: "FunctionCall list option"

definition run_tools :: "collaborators \<Rightarrow> FunctionCall list \<Rightarrow> app_state \<Rightarrow> app_state" where
  "run_tools env functionCalls s =
     tool_loop env functionCalls (add_log System ''Executing tools...'' (s\<lparr>mode := THINKING\<rparr>))"

definition onmessage :: "collaborators \<Rightarrow> real \<Rightarrow> LiveServerMessage \<Rightarrow> app_state \<Rightarrow> app_state" where
  "onmessage env now message s =
     (case (case audioData message of
              None \<Rightarrow> (True, s)
            | Some base64 \<Rightarrow> if base64 \<noteq> [] then play_audio env now base64 s else (True, s)) of
        (continue, s1) \<Rightarrow>
          if \<not> continue then s1
          else (case toolCall message of
                  None \<Rightarrow> s1
                | Some functionCalls \<Rightarrow> run_tools env functionCalls s1))"

definition onclose :: "nat \<Rightarrow> string \<Rightarrow> app_state \<Rightarrow> app_state" where
  "onclose code reason s =
     disconnect (add_log System (''Disconnected. '' @
        (if code \<noteq> 0 then ''Code: '' @ show_nat code else ''No code'') @ ''. '' @
        (if reason \<noteq> [] then ''Reason: '' @ reason else ''No reason provided'')) s)"

definition onerror :: "string \<Rightarrow> app_state \<Rightarrow> app_state" where
  "onerror detail s = disconnect (add_log System (''Connection error.'' @ detail) s)"

text \<open>The \<^verbatim>\<open>catch\<close> on the session promise, run when the connection fails.\<close>

definition onrejected :: "string \<Rightarrow> app_state \<Rightarrow> app_state" where
  "onrejected msg s =
     disconnect (add_log System (''Failed to establish connection: '' @ msg)
       (s\<lparr>sessionRef := Some Rejected, waiters := []\<rparr>))"

text \<open>The fulfilment of the session promise: the waiting reactions become microtasks.\<close>

definition onfulfilled :: "app_state \<Rightarrow> app_state" where
  "onfulfilled s =
     (if sessionRef s = Some Pending
      then s\<lparr>sessionRef := Some Fulfilled, microtasks := microtasks s @ waiters s, waiters := []\<rparr>
      else s)"

subsection \<open>A session as a sequence of events\<close>

text \<open>
  What can happen to a session once \<^verbatim>\<open>connectToLiveAPI\<close> has run: the callbacks of
  the transport, the fate of the session promise, the ticks of the audio nodes and
  timers, and what the user does (a tap on the orb while connected, the phone-filter
  switch of the settings, a render). Each event runs its callback and then the
  microtasks it queued.
\<close>

datatype event =
    SessionOpened real
  | SessionFulfilled
  | SessionRejected string
  | ServerMessage real LiveServerMessage
  | SourceEnded real
  | VolumeTick "8 word list"
  | AudioProcess "real list"
  | SessionClosed nat string
  | SessionError string
  | UserDisconnect
  | CallFilterToggled
  | Rendered

fun handler :: "collaborators \<Rightarrow> event \<Rightarrow> app_state \<Rightarrow> app_state" where
  "handler env (SessionOpened r) = onopen r"
| "handler env SessionFulfilled = onfulfilled"
| "handler env (SessionRejected msg) = onrejected msg"
| "handler env (ServerMessage now message) = onmessage env now message"
| "handler env (SourceEnded now) = onended now"
| "handler env (VolumeTick bins) = volume_tick bins"
| "handler env (AudioProcess inputData) = onaudioprocess env inputData"
| "handler env (SessionClosed code reason) = onclose code reason"
| "handler env (SessionError detail) = onerror detail"
| "handler env UserDisconnect = disconnect"
| "handler env CallFilterToggled = (\<lambda>s. s\<lparr>callFilterEnabled := \<not> callFilterEnabled s\<rparr>)"
| "handler env Rendered = (\<lambda>s. s\<lparr>ui := sync_inboxRef (ui s)\<rparr>)"

definition step :: "collaborators \<Rightarrow> app_state \<Rightarrow> event \<Rightarrow> app_state" where
  "step env s ev = job (handler env ev) s"

definition run :: "collaborators \<Rightarrow> app_state \<Rightarrow> event list \<Rightarrow> app_state" where
  "run env s evs = foldl (step env) s evs"

text \<open>The playback slots among the effects: start and end of each scheduled source.\<close>

fun slots_of :: "effect list \<Rightarrow> (real \<times> real) list" where
  "slots_of [] = []"
| "slots_of (SourceStarted start buffer g # es) = (start, start + duration buffer) # slots_of es"
| "slots_of (e # es) = slots_of es"

text \<open>The state of the component before the first connection.\<close>

definition initial :: "bool \<Rightarrow> app_state" where
  "initial callFilter =
     \<lparr>mode = IDLE, connected = False, volume = 0, callFilterEnabled = callFilter,
      ui = \<lparr>logs = [], inbox = [], inboxRef = [], drawn = 0\<rparr>,
      audioContextRef = None, inputContextRef = None, nextStartTimeRef = 0,
      sessionRef = None, processorRef = None, sourceRef = None, streamRef = None,
      bgNoiseRef = None, stream = None, callFilterAtConnect = callFilter,
      waiters = [], microtasks = [], effects = []\<rparr>"

subsection \<open>Auxiliary notions for the statements\<close>

text \<open>What a reaction does when it runs, given whether the capture processor is still there.\<close>

fun reaction_effects :: "bool \<Rightarrow> reaction \<Rightarrow> effect list" where
  "reaction_effects capturing (SendFrame b64Data) =
     (if capturing then [SendRealtimeInput b64Data] else [])"
| "reaction_effects capturing (SendGreeting txt) = [SendClientContent txt]"
| "reaction_effects capturing (SendResponse fr) = [SendToolResponse fr]"
| "reaction_effects capturing CloseSession = [SessionClose]"

text \<open>The responses of a batch of function calls and the store the batch leaves.\<close>

fun tool_responses :: "collaborators \<Rightarrow> FunctionCall list \<Rightarrow> store \<Rightarrow> FunctionResponse list" where
  "tool_responses env [] st = []"
| "tool_responses env (fc # fcs) st =
     \<lparr>fr_id = fc_id fc, fr_name = fc_name fc, response = snd (exec_tool env fc st)\<rparr> #
       tool_responses env fcs (fst (exec_tool env fc st))"

fun tool_store :: "collaborators \<Rightarrow> FunctionCall list \<Rightarrow> store \<Rightarrow> store" where
  "tool_store env [] st = st"
| "tool_store env (fc # fcs) st = tool_store env fcs (fst (exec_tool env fc st))"

definition is_error :: "tool_result \<Rightarrow> bool" where
  "is_error r = (case r of Error reason \<Rightarrow> reason \<noteq> [] | Result v \<Rightarrow> False)"

text \<open>
  When a call fails, given the store it runs on: the tool is unknown; the call has no
  arguments where the tool reads one; what the tool needs is not there (no image in the
  inbox, no frame from the camera, no image from the generator or the editor, no message
  with the given id); or the collaborator it awaits throws.
\<close>

definition call_fails :: "collaborators \<Rightarrow> FunctionCall \<Rightarrow> store \<Rightarrow> bool" where
  "call_fails env fc st =
     (if fc_name fc = Some ''generate_image'' then
        (case fc_args fc of
           None \<Rightarrow> True
         | Some args \<Rightarrow>
             (case generateImage env (args ''prompt'') of
                Throws \<Rightarrow> True | Returns imgData \<Rightarrow> \<not> truthy imgData))
      else if fc_name fc = Some ''edit_current_image'' then
        (case lastImage st of
           None \<Rightarrow> True
         | Some img \<Rightarrow>
             (case fc_args fc of
                None \<Rightarrow> True
              | Some args \<Rightarrow>
                  (case editImage env (item_content img) (args ''instruction'') of
                     Throws \<Rightarrow> True | Returns newImg \<Rightarrow> \<not> truthy newImg)))
      else if fc_name fc = Some ''search_web'' then
        (case fc_args fc of
           None \<Rightarrow> True
         | Some args \<Rightarrow> searchWeb env (args ''query'') = Throws)
      else if fc_name fc = Some ''see_and_analyze'' then
        (case handleCapture env of
           Throws \<Rightarrow> True
         | Returns frame \<Rightarrow>
             if truthy frame then
               (case fc_args fc of
                  None \<Rightarrow> True
                | Some args \<Rightarrow> analyzeImage env (arg_content frame) (args ''question'') = Throws)
             else True)
      else if fc_name fc = Some ''analyze_uploaded_image'' then
        (case lastImage st of
           None \<Rightarrow> True
         | Some img \<Rightarrow>
             (case fc_args fc of
                None \<Rightarrow> True
              | Some args \<Rightarrow> analyzeImage env (item_content img) (args ''question'') = Throws))
      else if fc_name fc = Some ''read_inbox_messages'' then False
      else if fc_name fc = Some ''edit_text_message'' then
        (case fc_args fc of
           None \<Rightarrow> True
         | Some args \<Rightarrow> (\<forall>item \<in> set (inboxRef st). Some (item_id item) \<noteq> args ''messageId''))
      else if fc_name fc = Some ''send_text_response'' then fc_args fc = None
      else if fc_name fc = Some ''think_deeply'' then
        (case fc_args fc of
           None \<Rightarrow> True
         | Some args \<Rightarrow> thinkHard env (args ''problem'') = Throws)
      else True)"

text \<open>The order of teardown.\<close>

definition teardown_order :: "effect list" where
  "teardown_order = [CaptureCallbackDetached, ProcessorDisconnected, MicSourceDisconnected,
     StreamTracksStopped, NoiseStopped, OutputContextClosed, SessionClose]"

text \<open>The chain of the phone effect.\<close>

definition phone_chain :: "audio_node list" where
  "phone_chain = [BiquadFilter Highpass 300, WaveShaper (makeDistortionCurve 5) ''4x'',
     BiquadFilter Lowpass 3400, Gain 0.85]"

text \<open>
  Collaborators for running the model on examples: every service is down, the camera
  gives no frame, and base64 is the real one.
\<close>

definition offline :: "bool \<Rightarrow> collaborators" where
  "offline mic =
     \<lparr>generateImage = (\<lambda>p. Returns None), editImage = (\<lambda>c i. Returns None),
      searchWeb = (\<lambda>q. Throws), analyzeImage = (\<lambda>c q. Throws), thinkHard = (\<lambda>q. Throws),
      handleCapture = Returns None, randomId = (\<lambda>n. ''m'' @ show_nat n),
      atob = base64_atob, btoa = base64_btoa, api_key = True, getUserMedia = mic,
      random = (\<lambda>n. 1 / 2)\<rparr>"

text \<open>
  The same with the five services of \<^verbatim>\<open>geminiService\<close> as the repository has them,
  over a remote model that cannot be reached: every request throws.
\<close>

definition unreachable :: "bool \<Rightarrow> collaborators" where
  "unreachable mic = with_geminiService (\<lambda>request. Throws) (offline mic)"

text \<open>The audio frames among the effects, and the number of times the noise was stopped.\<close>

fun frames_of :: "effect list \<Rightarrow> audio_data list" where
  "frames_of [] = []"
| "frames_of (SendRealtimeInput frame # es) = frame # frames_of es"
| "frames_of (e # es) = frames_of es"

fun noise_stops :: "effect list \<Rightarrow> nat" where
  "noise_stops [] = 0"
| "noise_stops (NoiseStopped # es) = Suc (noise_stops es)"
| "noise_stops (e # es) = noise_stops es"

text \<open>The events whose callbacks call \<^verbatim>\<open>disconnect\<close>.\<close>

fun tears_down :: "event \<Rightarrow> bool" where
  "tears_down UserDisconnect = True"
| "tears_down (SessionClosed code reason) = True"
| "tears_down (SessionError detail) = True"
| "tears_down (SessionRejected msg) = True"
| "tears_down ev = False"

text \<open>The text of the turn \<^verbatim>\<open>onopen\<close> sends for the third of the five contexts.\<close>

definition greeting :: string where
  "greeting = ''System Event: User looks relaxed. Be casual.'' @
     ''. Greet the user naturally based on this context. Keep it short.''"

section \<open>Verified properties\<close>

subsection \<open>Codec round trip\<close>

lemma byte_char: "(of_char (char_of (unat (b::8 word))) :: 8 word) = b"
proof -
  have "(of_char (char_of (unat b)) :: 8 word) = of_nat (of_char (char_of (unat b)))"
    by (simp only: of_nat_of_char)
  also have "\<dots> = of_nat (unat b mod 256)" by simp
  also have "\<dots> = b"
    using unsigned_less [of b, where 'a = nat] by simp
  finally show ?thesis .
qed

lemma sint16: "- 32768 \<le> k \<Longrightarrow> k \<le> 32767 \<Longrightarrow> sint (word_of_int k :: 16 word) = k"
  by (simp add: sint_sbintrunc' signed_take_bit_int_eq_self)

lemma bytes_word:
  "push_bit 8 (ucast (ucast (drop_bit 8 w) :: 8 word)) OR ucast (ucast w :: 8 word) = (w :: 16 word)"
  by (rule bit_word_eqI) (auto simp add: bit_simps)

lemma Int16Array_bytes:
  "Int16Array (concat (map (\<lambda>x. int16_bytes (f x)) xs)) = Some (map f xs)"
  by (induction xs) (simp_all add: int16_bytes_def bytes_word)

lemma bytes_of_binary: "map of_char (map (\<lambda>b. char_of (unat b)) bs) = (bs :: 8 word list)"
  by (induction bs) (simp_all add: byte_char)

lemma decode_binary_of:
  assumes "dec (enc (binary_of s)) = Some (binary_of s)" and "s \<noteq> []"
  shows "decodeAudioData dec (data (createAudioData enc s)) =
    Inr \<lparr>channelData = map (\<lambda>x. real_of_int (sint (pcm16 x)) / 32768) s, sampleRate = 24000\<rparr>"
proof -
  have "Int16Array (map of_char (binary_of s)) = Some (map pcm16 s)"
    unfolding binary_of_def bytes_of_binary by (rule Int16Array_bytes)
  with assms show ?thesis
    by (simp add: decodeAudioData_def createAudioData_def comp_def)
qed

lemma pcm16_neg:
  assumes "- 1 \<le> x" "x < 0"
  shows "real_of_int (sint (pcm16 x)) / 32768 - x < 1 / 32768"
    and "x \<le> real_of_int (sint (pcm16 x)) / 32768"
proof -
  let ?k = "\<lceil>x * 32768\<rceil>"
  have lo: "- 32768 \<le> ?k" using assms by (simp add: le_ceiling_iff)
  have hi: "?k \<le> 0" using assms by (simp add: ceiling_le_iff)
  have p: "pcm16 x = word_of_int ?k"
    using assms by (simp add: pcm16_def ToInt16_def Let_def min_def max_def)
  have s: "sint (pcm16 x) = ?k" unfolding p using lo hi by (simp add: sint16)
  have c: "real_of_int ?k - 1 < x * 32768" "x * 32768 \<le> real_of_int ?k"
    by linarith+
  show "real_of_int (sint (pcm16 x)) / 32768 - x < 1 / 32768" unfolding s using c by simp
  show "x \<le> real_of_int (sint (pcm16 x)) / 32768" unfolding s using c by simp
qed

lemma pcm16_nonneg:
  assumes "0 \<le> x" "x \<le> 1"
  shows "x - real_of_int (sint (pcm16 x)) / 32768 < (1 + x) / 32768"
    and "real_of_int (sint (pcm16 x)) / 32768 \<le> x"
proof -
  let ?k = "\<lfloor>x * 32767\<rfloor>"
  have lo: "0 \<le> ?k" using assms by simp
  have hi: "?k \<le> 32767" using assms by (simp add: floor_le_iff)
  have p: "pcm16 x = word_of_int ?k"
    using assms by (simp add: pcm16_def ToInt16_def Let_def min_def max_def)
  have s: "sint (pcm16 x) = ?k" unfolding p using lo hi by (simp add: sint16)
  have c: "real_of_int ?k \<le> x * 32767" "x * 32767 < real_of_int ?k + 1"
    by linarith+
  show "x - real_of_int (sint (pcm16 x)) / 32768 < (1 + x) / 32768"
    unfolding s using c by (simp add: field_simps)
  have "real_of_int ?k \<le> x * 32768"
    using of_int_floor_le [of "x * 32767"] assms by linarith
  then show "real_of_int (sint (pcm16 x)) / 32768 \<le> x" unfolding s by (simp add: field_simps)
qed

lemma pcm16_error:
  assumes "- 1 \<le> x" "x \<le> 1"
  shows "\<bar>x - real_of_int (sint (pcm16 x)) / 32768\<bar> < 2 / 32768"
    and "x < 0 \<Longrightarrow> \<bar>x - real_of_int (sint (pcm16 x)) / 32768\<bar> < 1 / 32768"
  using pcm16_neg [of x] pcm16_nonneg [of x] assms
  by (cases "x < 0"; simp add: field_simps; linarith)+

lemma example_binary:
  "binary_of [65535 / 65536, - 1 / 2] = [CHR 0xFE, CHR 0x7F, CHR 0x00, CHR 0xC0]"
  by (simp add: binary_of_def int16_bytes_def pcm16_def ToInt16_def Let_def char_of_def bit_0)

lemma example_base64:
  "base64_atob (base64_btoa [CHR 0xFE, CHR 0x7F, CHR 0x00, CHR 0xC0]) =
     Some [CHR 0xFE, CHR 0x7F, CHR 0x00, CHR 0xC0]"
  by (simp add: base64_digits_def Let_def char_of_def bit_0)

lemma example_decode:
  "decodeAudioData base64_atob ''/n8='' = Inr \<lparr>channelData = [16383 / 16384], sampleRate = 24000\<rparr>"
proof -
  have "base64_atob ''/n8='' = Some [CHR 0xFE, CHR 0x7F]"
    by (simp add: base64_digits_def Let_def char_of_def bit_0)
  then show ?thesis by (simp add: decodeAudioData_def del: base64_atob.simps)
qed

text \<open>
  C3 (as the code has it). For every non-empty sequence of samples in \<open>[-1, 1]\<close>, decoding
  the encoded sequence (over a base64 pair that carries the encoded bytes through)
  yields a buffer of the same length whose samples differ from the originals by less
  than \<open>2/32768\<close>, and by less than \<open>1/32768\<close> where the original is negative.
\<close>

theorem codec_roundtrip_error:
  assumes "dec (enc (binary_of s)) = Some (binary_of s)"
    and "s \<noteq> []"
    and "\<forall>x\<in>set s. - 1 \<le> x \<and> x \<le> 1"
  shows "\<exists>b. decodeAudioData dec (data (createAudioData enc s)) = Inr b \<and>
           length (channelData b) = length s \<and>
           (\<forall>i<length s.
              \<bar>s ! i - channelData b ! i\<bar> < 2 / 32768 \<and>
              (s ! i < 0 \<longrightarrow> \<bar>s ! i - channelData b ! i\<bar> < 1 / 32768))"
proof -
  let ?b = "\<lparr>channelData = map (\<lambda>x. real_of_int (sint (pcm16 x)) / 32768) s,
             sampleRate = 24000\<rparr>"
  have "decodeAudioData dec (data (createAudioData enc s)) = Inr ?b"
    using assms(1,2) by (rule decode_binary_of)
  moreover have "length (channelData ?b) = length s" by simp
  moreover have "\<bar>s ! i - channelData ?b ! i\<bar> < 2 / 32768 \<and>
      (s ! i < 0 \<longrightarrow> \<bar>s ! i - channelData ?b ! i\<bar> < 1 / 32768)" if "i < length s" for i
  proof -
    from that assms(3) have "- 1 \<le> s ! i" "s ! i \<le> 1" by auto
    then show ?thesis using that pcm16_error [of "s ! i"] by simp
  qed
  ultimately show ?thesis by blast
qed

theorem codec_roundtrip_error_witness:
  "\<exists>b. decodeAudioData base64_atob
          (data (createAudioData base64_btoa [65535 / 65536, - 1 / 2])) = Inr b \<and>
     length (channelData b) = 2 \<and>
     \<bar>65535 / 65536 - channelData b ! 0\<bar> < 2 / 32768 \<and>
     \<bar>- 1 / 2 - channelData b ! 1\<bar> < 1 / 32768"
proof -
  let ?s = "[65535 / 65536, - 1 / 2] :: real list"
  have h1: "base64_atob (base64_btoa (binary_of ?s)) = Some (binary_of ?s)"
    unfolding example_binary by (rule example_base64)
  have h2: "?s \<noteq> []" by simp
  have h3: "\<forall>x\<in>set ?s. - 1 \<le> x \<and> x \<le> 1" by simp
  from codec_roundtrip_error [of base64_atob base64_btoa ?s, OF h1 h2 h3] obtain b where
    b: "decodeAudioData base64_atob (data (createAudioData base64_btoa ?s)) = Inr b"
      "length (channelData b) = length ?s"
      "\<forall>i<length ?s. \<bar>?s ! i - channelData b ! i\<bar> < 2 / 32768 \<and>
          (?s ! i < 0 \<longrightarrow> \<bar>?s ! i - channelData b ! i\<bar> < 1 / 32768)"
    by blast
  from b(3) have "\<bar>?s ! 0 - channelData b ! 0\<bar> < 2 / 32768 \<and>
      (?s ! 0 < 0 \<longrightarrow> \<bar>?s ! 0 - channelData b ! 0\<bar> < 1 / 32768)"
    by (rule allE [of _ 0]) simp
  moreover from b(3) have "\<bar>?s ! 1 - channelData b ! 1\<bar> < 2 / 32768 \<and>
      (?s ! 1 < 0 \<longrightarrow> \<bar>?s ! 1 - channelData b ! 1\<bar> < 1 / 32768)"
    by (rule allE [of _ 1]) simp
  ultimately have "\<bar>65535 / 65536 - channelData b ! 0\<bar> < 2 / 32768"
    and "\<bar>- 1 / 2 - channelData b ! 1\<bar> < 1 / 32768" by simp_all
  with b(1,2) show ?thesis by auto
qed

text \<open>
  The sample \<open>65535/65536\<close> (a Float32) is encoded as \<open>32766\<close>, on the wire \<open>/n8=\<close>, and
  decoded as \<open>32766/32768\<close>: an error of \<open>3/65536\<close>, more than \<open>1/32768\<close>.
\<close>

theorem codec_roundtrip_counterexample:
  "decodeAudioData base64_atob (data (createAudioData base64_btoa [65535 / 65536])) =
     Inr \<lparr>channelData = [16383 / 16384], sampleRate = 24000\<rparr> \<and>
   - 1 \<le> (65535 / 65536 :: real) \<and> (65535 / 65536 :: real) \<le> 1 \<and>
   \<not> \<bar>65535 / 65536 - 16383 / 16384 :: real\<bar> \<le> 1 / 32768"
proof -
  have b: "binary_of [65535 / 65536] = [CHR 0xFE, CHR 0x7F]"
    by (simp add: binary_of_def int16_bytes_def pcm16_def ToInt16_def Let_def char_of_def bit_0)
  have e: "base64_btoa [CHR 0xFE, CHR 0x7F] = ''/n8=''"
    by (simp add: base64_digits_def Let_def)
  have w: "data (createAudioData base64_btoa [65535 / 65536]) = ''/n8=''"
    by (simp add: createAudioData_def b e del: base64_btoa.simps)
  with example_decode show ?thesis by simp
qed

subsection \<open>What the callbacks change\<close>

lemma run_reaction_eq:
  "run_reaction r s = s\<lparr>effects := effects s @ reaction_effects (processorRef s \<noteq> None) r\<rparr>"
  by (cases r) (simp_all add: run_reaction_def emit_def)

lemma fold_run_reaction:
  "fold run_reaction rs s =
     s\<lparr>effects := effects s @ concat (map (reaction_effects (processorRef s \<noteq> None)) rs)\<rparr>"
proof (induction rs arbitrary: s)
  case Nil
  show ?case by simp
next
  case (Cons r rs)
  have "fold run_reaction (r # rs) s = fold run_reaction rs (run_reaction r s)" by simp
  also have "\<dots> = (run_reaction r s)\<lparr>effects := effects (run_reaction r s) @
      concat (map (reaction_effects (processorRef (run_reaction r s) \<noteq> None)) rs)\<rparr>"
    by (rule Cons.IH)
  also have "\<dots> = s\<lparr>effects := effects s @
      concat (map (reaction_effects (processorRef s \<noteq> None)) (r # rs))\<rparr>"
    by (simp add: run_reaction_eq)
  finally show ?case .
qed

lemma drain_eq:
  "drain s = s\<lparr>microtasks := [],
     effects := effects s @ concat (map (reaction_effects (processorRef s \<noteq> None)) (microtasks s))\<rparr>"
  by (simp add: drain_def fold_run_reaction)

lemma tool_loop_eq:
  "tool_loop env fcs s =
     (case sessionRef s of
        Some Fulfilled \<Rightarrow>
          s\<lparr>ui := tool_store env fcs (ui s),
            microtasks := microtasks s @ map SendResponse (tool_responses env fcs (ui s))\<rparr>
      | Some Pending \<Rightarrow>
          s\<lparr>ui := tool_store env fcs (ui s),
            waiters := waiters s @ map SendResponse (tool_responses env fcs (ui s))\<rparr>
      | _ \<Rightarrow> s\<lparr>ui := tool_store env fcs (ui s)\<rparr>)"
proof (induction fcs arbitrary: s)
  case Nil
  show ?case by (simp split: option.split promise.split)
next
  case (Cons fc fcs)
  show ?case
    by (simp add: Cons.IH then_session_def split_beta split: option.split promise.split)
qed

subsection \<open>The state machine\<close>





subsection \<open>Tool calls and the mode\<close>

lemma mode_tool_loop: "mode (tool_loop env fcs s) = mode s"
  by (simp add: tool_loop_eq split: option.split promise.split)

text \<open>
  C5 (as the code has it). A tool-call message sets the state to \<open>THINKING\<close> from every
  state, \<open>SPEAKING\<close> included: \<^verbatim>\<open>onmessage\<close> calls \<^verbatim>\<open>setMode(AppMode.THINKING)\<close>
  without looking at the current mode.
\<close>

theorem tool_call_sets_thinking:
  "audioData m = None \<and> toolCall m = Some fcs \<longrightarrow>
     mode (step env s (ServerMessage now m)) = THINKING"
  by (simp add: step_def job_def drain_eq onmessage_def run_tools_def mode_tool_loop add_log_def)

theorem tool_call_sets_thinking_witness:
  "mode (step (offline True) ((initial True)\<lparr>mode := LISTENING\<rparr>)
     (ServerMessage 0 \<lparr>audioData = None, toolCall = Some
        [\<lparr>fc_id = Some ''call-1'', fc_name = Some ''search_web'',
          fc_args = Some [''query'' \<mapsto> ''weather'']\<rparr>]\<rparr>)) = THINKING"
  using tool_call_sets_thinking [of "\<lparr>audioData = None, toolCall = Some
        [\<lparr>fc_id = Some ''call-1'', fc_name = Some ''search_web'',
          fc_args = Some [''query'' \<mapsto> ''weather'']\<rparr>]\<rparr>" _ "offline True"
        "(initial True)\<lparr>mode := LISTENING\<rparr>" 0]
  by simp

text \<open>A tool call that arrives while the machine is \<open>SPEAKING\<close> forces it to \<open>THINKING\<close>.\<close>

theorem speaking_tool_call_counterexample:
  "mode ((initial True)\<lparr>mode := SPEAKING\<rparr>) = SPEAKING \<and>
   mode (step (offline True) ((initial True)\<lparr>mode := SPEAKING\<rparr>)
     (ServerMessage 0 \<lparr>audioData = None, toolCall = Some
        [\<lparr>fc_id = Some ''call-1'', fc_name = Some ''search_web'',
          fc_args = Some [''query'' \<mapsto> ''weather'']\<rparr>]\<rparr>)) = THINKING"
  by (simp add: step_def job_def drain_eq onmessage_def run_tools_def mode_tool_loop add_log_def
      del: tool_loop.simps)

subsection \<open>Teardown\<close>

lemma effects_disconnect:
  assumes m: "microtasks s = []"
  shows "effects (drain (disconnect s)) = effects s @
     (if processorRef s \<noteq> None then [CaptureCallbackDetached, ProcessorDisconnected] else []) @
     (if sourceRef s \<noteq> None then [MicSourceDisconnected] else []) @
     (if streamRef s \<noteq> None then [StreamTracksStopped] else []) @
     (if bgNoiseRef s \<noteq> None then [NoiseStopped] else []) @
     (if audioContextRef s \<noteq> None then [OutputContextClosed] else []) @
     (if sessionRef s = Some Fulfilled then [SessionClose] else [])"
proof -
  define s1 where "s1 = (if sessionRef s \<noteq> None then then_session CloseSession s else s)"
  define s2 where "s2 = (if processorRef s1 \<noteq> None
      then (emit ProcessorDisconnected (emit CaptureCallbackDetached s1))\<lparr>processorRef := None\<rparr>
      else s1)"
  define s3 where "s3 = (if sourceRef s2 \<noteq> None
      then (emit MicSourceDisconnected s2)\<lparr>sourceRef := None\<rparr> else s2)"
  define s4 where "s4 = (if streamRef s3 \<noteq> None
      then (emit StreamTracksStopped s3)\<lparr>streamRef := None\<rparr> else s3)"
  define s5 where "s5 = (if bgNoiseRef s4 \<noteq> None
      then (emit NoiseStopped s4)\<lparr>bgNoiseRef := None\<rparr> else s4)"
  define s6 where "s6 = (if audioContextRef s5 \<noteq> None
      then (emit OutputContextClosed s5)\<lparr>audioContextRef := None\<rparr> else s5)"
  have d: "disconnect s = s6\<lparr>connected := False, mode := IDLE, volume := 0\<rparr>"
    unfolding disconnect_def Let_def s6_def s5_def s4_def s3_def s2_def s1_def by (rule refl)
  have 1: "effects s1 = effects s"
    "microtasks s1 = (if sessionRef s = Some Fulfilled then [CloseSession] else [])"
    "processorRef s1 = processorRef s" "sourceRef s1 = sourceRef s" "streamRef s1 = streamRef s"
    "bgNoiseRef s1 = bgNoiseRef s" "audioContextRef s1 = audioContextRef s"
    using m by (simp_all add: s1_def then_session_def split: option.split promise.split)
  have 2: "effects s2 = effects s1 @
      (if processorRef s1 \<noteq> None then [CaptureCallbackDetached, ProcessorDisconnected] else [])"
    "microtasks s2 = microtasks s1" "sourceRef s2 = sourceRef s1" "streamRef s2 = streamRef s1"
    "bgNoiseRef s2 = bgNoiseRef s1" "audioContextRef s2 = audioContextRef s1"
    by (simp_all add: s2_def emit_def)
  have 3: "effects s3 = effects s2 @ (if sourceRef s2 \<noteq> None then [MicSourceDisconnected] else [])"
    "microtasks s3 = microtasks s2" "streamRef s3 = streamRef s2"
    "bgNoiseRef s3 = bgNoiseRef s2" "audioContextRef s3 = audioContextRef s2"
    by (simp_all add: s3_def emit_def)
  have 4: "effects s4 = effects s3 @ (if streamRef s3 \<noteq> None then [StreamTracksStopped] else [])"
    "microtasks s4 = microtasks s3" "bgNoiseRef s4 = bgNoiseRef s3"
    "audioContextRef s4 = audioContextRef s3"
    by (simp_all add: s4_def emit_def)
  have 5: "effects s5 = effects s4 @ (if bgNoiseRef s4 \<noteq> None then [NoiseStopped] else [])"
    "microtasks s5 = microtasks s4" "audioContextRef s5 = audioContextRef s4"
    by (simp_all add: s5_def emit_def)
  have 6: "effects s6 = effects s5 @
      (if audioContextRef s5 \<noteq> None then [OutputContextClosed] else [])"
    "microtasks s6 = microtasks s5"
    by (simp_all add: s6_def emit_def)
  have "effects (drain (disconnect s)) = effects s6 @
      concat (map (reaction_effects (processorRef s6 \<noteq> None)) (microtasks s6))"
    by (simp add: d drain_eq)
  also have "microtasks s6 = (if sessionRef s = Some Fulfilled then [CloseSession] else [])"
    by (simp only: 6 5 4 3 2 1)
  also have "effects s6 = effects s @
     (if processorRef s \<noteq> None then [CaptureCallbackDetached, ProcessorDisconnected] else []) @
     (if sourceRef s \<noteq> None then [MicSourceDisconnected] else []) @
     (if streamRef s \<noteq> None then [StreamTracksStopped] else []) @
     (if bgNoiseRef s \<noteq> None then [NoiseStopped] else []) @
     (if audioContextRef s \<noteq> None then [OutputContextClosed] else [])"
    by (simp only: 6 5 4 3 2 1 append_assoc)
  finally show ?thesis by (cases "sessionRef s = Some Fulfilled") simp_all
qed

lemma subseq_teardown:
  "subseq
    ((if a then [CaptureCallbackDetached, ProcessorDisconnected] else []) @
     (if b then [MicSourceDisconnected] else []) @
     (if c then [StreamTracksStopped] else []) @
     (if d then [NoiseStopped] else []) @
     (if e then [OutputContextClosed] else []) @
     (if f then [SessionClose] else [])) teardown_order"
  by (simp add: teardown_order_def list_emb_code)

text \<open>
  C6. A disconnect (the user's, or the one \<^verbatim>\<open>onclose\<close> and \<^verbatim>\<open>onerror\<close> make) from any
  state performs its steps in this order: the capture callback is detached and the
  processor disconnected, the microphone source is disconnected, the tracks of the stream
  are stopped, the noise source is stopped, the output context is closed, and last the
  transport is closed. The source registers the closing of the session first, but as a
  reaction on the session promise, which runs after the synchronous steps; each step is
  there only when its resource is.
\<close>

theorem teardown_in_order:
  assumes "microtasks s = []"
    and "ev = UserDisconnect \<or> ev = SessionClosed code reason \<or> ev = SessionError detail"
  shows "\<exists>steps. effects (step env s ev) = effects s @ steps \<and>
     steps =
       (if processorRef s \<noteq> None then [CaptureCallbackDetached, ProcessorDisconnected] else []) @
       (if sourceRef s \<noteq> None then [MicSourceDisconnected] else []) @
       (if streamRef s \<noteq> None then [StreamTracksStopped] else []) @
       (if bgNoiseRef s \<noteq> None then [NoiseStopped] else []) @
       (if audioContextRef s \<noteq> None then [OutputContextClosed] else []) @
       (if sessionRef s = Some Fulfilled then [SessionClose] else []) \<and>
     subseq steps teardown_order"
proof -
  have "\<exists>s'. step env s ev = drain (disconnect s') \<and> microtasks s' = [] \<and>
      effects s' = effects s \<and> processorRef s' = processorRef s \<and> sourceRef s' = sourceRef s \<and>
      streamRef s' = streamRef s \<and> bgNoiseRef s' = bgNoiseRef s \<and>
      audioContextRef s' = audioContextRef s \<and> sessionRef s' = sessionRef s"
    using assms(2)
  proof (elim disjE)
    assume "ev = UserDisconnect"
    with assms(1) show ?thesis by (intro exI [of _ s]) (simp add: step_def job_def)
  next
    assume "ev = SessionClosed code reason"
    with assms(1) show ?thesis
      by (simp only: step_def job_def handler.simps onclose_def)
         (rule exI, rule conjI, rule refl, simp add: add_log_def)
  next
    assume "ev = SessionError detail"
    with assms(1) show ?thesis
      by (simp only: step_def job_def handler.simps onerror_def)
         (rule exI, rule conjI, rule refl, simp add: add_log_def)
  qed
  then obtain s' where s': "step env s ev = drain (disconnect s')" "microtasks s' = []"
      "effects s' = effects s" "processorRef s' = processorRef s" "sourceRef s' = sourceRef s"
      "streamRef s' = streamRef s" "bgNoiseRef s' = bgNoiseRef s"
      "audioContextRef s' = audioContextRef s" "sessionRef s' = sessionRef s"
    by blast
  have "effects (step env s ev) = effects s @
       (if processorRef s \<noteq> None then [CaptureCallbackDetached, ProcessorDisconnected] else []) @
       (if sourceRef s \<noteq> None then [MicSourceDisconnected] else []) @
       (if streamRef s \<noteq> None then [StreamTracksStopped] else []) @
       (if bgNoiseRef s \<noteq> None then [NoiseStopped] else []) @
       (if audioContextRef s \<noteq> None then [OutputContextClosed] else []) @
       (if sessionRef s = Some Fulfilled then [SessionClose] else [])"
    unfolding s'(1) effects_disconnect [OF s'(2)] s'(3-9) by (rule refl)
  then show ?thesis using subseq_teardown by blast
qed


theorem teardown_in_order_witness:
  "effects (step (offline True)
      ((initial True)\<lparr>processorRef := Some Handle, sourceRef := Some Handle,
         streamRef := Some Handle, bgNoiseRef := Some (make_noise (\<lambda>n. 1 / 2) 24000),
         audioContextRef := Some 24000, sessionRef := Some Fulfilled\<rparr>) UserDisconnect) =
     teardown_order"
proof -
  let ?s = "(initial True)\<lparr>processorRef := Some Handle, sourceRef := Some Handle,
         streamRef := Some Handle, bgNoiseRef := Some (make_noise (\<lambda>n. 1 / 2) 24000),
         audioContextRef := Some 24000, sessionRef := Some Fulfilled\<rparr>"
  have m: "microtasks ?s = []" by (simp add: initial_def)
  from teardown_in_order [of ?s UserDisconnect _ _ _ "offline True", OF m]
  show ?thesis by (simp add: initial_def teardown_order_def)
qed

subsection \<open>Routing of a decoded buffer\<close>

lemma routes_phone: "output_routes (playback_graph True) = [phone_chain]"
  by (simp add: output_routes_def playback_graph_def phone_chain_def Let_def)

lemma routes_direct: "output_routes (playback_graph False) = [[]]"
  by (simp add: output_routes_def playback_graph_def)

lemma effects_audio_message:
  assumes "microtasks s = []" "audioContextRef s \<noteq> None"
    "audioData m = Some chunk" "chunk \<noteq> []" "toolCall m = None"
    "decodeAudioData (atob env) chunk = Inr buffer"
  shows "effects (step env s (ServerMessage now m)) = effects s @
     [SourceStarted (max now (nextStartTimeRef s)) buffer (playback_graph (callFilterAtConnect s))]"
  using assms
  by (auto simp add: step_def job_def drain_eq onmessage_def play_audio_def emit_def Let_def)

lemma disconnect_flags:
  "callFilterAtConnect (disconnect s) = callFilterAtConnect s"
  "callFilterEnabled (disconnect s) = callFilterEnabled s"
  by (simp_all add: disconnect_def Let_def emit_def then_session_def
      split: option.split promise.split)

lemma onmessage_flags:
  "callFilterAtConnect (onmessage env now m s) = callFilterAtConnect s"
  "callFilterEnabled (onmessage env now m s) = callFilterEnabled s"
  by (simp_all add: onmessage_def run_tools_def tool_loop_eq play_audio_def add_log_def emit_def
      Let_def split_beta split: option.split sum.split promise.split)

lemma step_flags:
  "callFilterAtConnect (step env s ev) = callFilterAtConnect s"
  "ev \<noteq> CallFilterToggled \<Longrightarrow> callFilterEnabled (step env s ev) = callFilterEnabled s"
  by (cases ev;
      simp add: step_def job_def drain_eq onopen_def onfulfilled_def onrejected_def
        onmessage_flags onended_def volume_tick_def onaudioprocess_def onclose_def onerror_def
        disconnect_flags add_log_def then_session_def Let_def
        split: option.split promise.split)+

lemma run_flags:
  "CallFilterToggled \<notin> set evs \<Longrightarrow>
     callFilterAtConnect (run env s evs) = callFilterAtConnect s \<and>
     callFilterEnabled (run env s evs) = callFilterEnabled s"
proof (induction evs arbitrary: s)
  case Nil
  show ?case by (simp add: run_def)
next
  case (Cons ev evs)
  have "run env s (ev # evs) = run env (step env s ev) evs" by (simp add: run_def)
  with Cons.IH [of "step env s ev"] Cons.prems step_flags(1) [of env s ev]
    step_flags(2) [of ev env s]
  show ?case by auto
qed

lemma connect_flags:
  "api_key env \<Longrightarrow> callFilterAtConnect (connectToLiveAPI env s) = callFilterEnabled s"
  "callFilterEnabled (connectToLiveAPI env s) = callFilterEnabled s"
  by (simp_all add: connectToLiveAPI_def Let_def add_log_def emit_def split: option.split)

subsection \<open>Volume samples\<close>

lemma sum_squares_le:
  "(\<forall>x\<in>set xs. - 1 \<le> x \<and> x \<le> (1::real)) \<Longrightarrow>
     0 \<le> sum_list (map (\<lambda>x. x * x) xs) \<and> sum_list (map (\<lambda>x. x * x) xs) \<le> real (length xs)"
proof (induction xs)
  case Nil
  show ?case by simp
next
  case (Cons x xs)
  then have "- 1 \<le> x" "x \<le> 1" by simp_all
  then have "\<bar>x\<bar> \<le> 1" by simp
  then have "\<bar>x\<bar> * \<bar>x\<bar> \<le> 1 * 1" by (intro mult_mono) simp_all
  then have "x * x \<le> 1" "0 \<le> x * x" by simp_all
  with Cons show ?case by simp
qed

lemma capture_rms_range:
  assumes "xs \<noteq> []" "\<forall>x\<in>set xs. - 1 \<le> x \<and> x \<le> 1"
  shows "0 \<le> capture_rms xs" "capture_rms xs \<le> 1"
proof -
  from assms(1) have n: "0 < real (length xs)" by simp
  from sum_squares_le [OF assms(2)] n
  have "sum_list (map (\<lambda>x. x * x) xs) / real (length xs) \<le> 1"
    and "0 \<le> sum_list (map (\<lambda>x. x * x) xs) / real (length xs)" by simp_all
  then show "0 \<le> capture_rms xs" "capture_rms xs \<le> 1"
    by (simp_all add: capture_rms_def)
qed

lemma sum_bytes_le: "sum_list (map unat (bins :: 8 word list)) \<le> 255 * length bins"
proof (induction bins)
  case Nil
  show ?case by simp
next
  case (Cons b bins)
  have "unat b < 256" using unsigned_less [of b, where 'a = nat] by simp
  with Cons show ?case by simp
qed

lemma output_volume_range:
  assumes "bins \<noteq> []"
  shows "0 \<le> output_volume bins" "output_volume bins \<le> 8"
proof -
  from assms have n: "0 < real (length bins)" by simp
  have "real (sum_list (map unat bins)) \<le> 255 * real (length bins)"
    using sum_bytes_le [of bins] by (metis of_nat_le_iff of_nat_mult of_nat_numeral)
  with n have "real (sum_list (map unat bins)) / real (length bins) \<le> 255"
    by (simp add: field_simps)
  then show "0 \<le> output_volume bins" "output_volume bins \<le> 8"
    by (simp_all add: output_volume_def Let_def)
qed

text \<open>
  C9 (as the code has it). The volume published for a capture frame is the RMS of the
  frame, in \<open>[0, 1]\<close> for samples in \<open>[-1, 1]\<close>; the volume published by the analysis tick
  while a source plays is eight times the mean of the analyser's bytes over 255, in
  \<open>[0, 8]\<close>; a disconnect publishes \<open>0\<close>.
\<close>

theorem volume_sample_range:
  "(processorRef s \<noteq> None \<and> frame \<noteq> [] \<and> (\<forall>x\<in>set frame. - 1 \<le> x \<and> x \<le> 1) \<longrightarrow>
      volume (step env s (AudioProcess frame)) = capture_rms frame \<and>
      0 \<le> volume (step env s (AudioProcess frame)) \<and>
      volume (step env s (AudioProcess frame)) \<le> 1) \<and>
   (bins \<noteq> [] \<longrightarrow>
      volume (step env s (VolumeTick bins)) = output_volume bins \<and>
      0 \<le> volume (step env s (VolumeTick bins)) \<and>
      volume (step env s (VolumeTick bins)) \<le> 8) \<and>
   volume (step env s UserDisconnect) = 0"
proof (intro conjI impI)
  assume a: "processorRef s \<noteq> None \<and> frame \<noteq> [] \<and> (\<forall>x\<in>set frame. - 1 \<le> x \<and> x \<le> 1)"
  then show v: "volume (step env s (AudioProcess frame)) = capture_rms frame"
    by (auto simp add: step_def job_def drain_eq onaudioprocess_def then_session_def Let_def
        split: option.split promise.split)
  from a show "0 \<le> volume (step env s (AudioProcess frame))"
    "volume (step env s (AudioProcess frame)) \<le> 1"
    unfolding v using capture_rms_range [of frame] by simp_all
next
  assume b: "bins \<noteq> []"
  show v: "volume (step env s (VolumeTick bins)) = output_volume bins"
    by (simp add: step_def job_def drain_eq volume_tick_def)
  from b show "0 \<le> volume (step env s (VolumeTick bins))"
    "volume (step env s (VolumeTick bins)) \<le> 8"
    unfolding v using output_volume_range [of bins] by simp_all
next
  show "volume (step env s UserDisconnect) = 0"
    by (simp add: step_def job_def drain_eq disconnect_def Let_def)
qed

theorem volume_sample_range_witness:
  "volume (step (offline True) ((initial True)\<lparr>processorRef := Some Handle\<rparr>)
      (AudioProcess [1, - 1])) = 1 \<and>
   0 \<le> volume (step (offline True) ((initial True)\<lparr>processorRef := Some Handle\<rparr>)
      (VolumeTick [255, 0])) \<and>
   volume (step (offline True) ((initial True)\<lparr>processorRef := Some Handle\<rparr>)
      (VolumeTick [255, 0])) \<le> 8"
proof -
  have "capture_rms [1, - 1] = 1" by (simp add: capture_rms_def)
  then show ?thesis
    using volume_sample_range [of "(initial True)\<lparr>processorRef := Some Handle\<rparr>" "[1, - 1]"
        "offline True" "[255, 0]"]
    by simp
qed

text \<open>
  With every one of the sixteen bins of the analyser at 64, the published volume is
  \<open>512/255\<close>, about 2.
\<close>

theorem volume_sample_counterexample:
  "volume (step (offline True) (initial True) (VolumeTick (replicate 16 64))) = 512 / 255 \<and>
   \<not> (512 / 255 :: real) \<le> 1"
  by (simp add: step_def job_def drain_eq volume_tick_def output_volume_def Let_def
      sum_list_replicate)

subsection \<open>Tool calls are answered\<close>

lemma tool_responses_ids:
  "map fr_id (tool_responses env fcs st) = map fc_id fcs \<and>
   map fr_name (tool_responses env fcs st) = map fc_name fcs"
  by (induction fcs arbitrary: st) simp_all

lemma length_tool_responses: "length (tool_responses env fcs st) = length fcs"
  by (induction fcs arbitrary: st) simp_all

lemma exec_tool_unknown:
  "fc_name fc \<notin> Some ` set known_tools \<Longrightarrow> exec_tool env fc st = (st, Error ''Unknown tool'')"
  by (simp add: exec_tool_def known_tools_def)

lemma is_error_failed: "is_error tool_failed"
  by (simp add: is_error_def tool_failed_def)

lemma lastImage_addLog: "lastImage (addLog r txt st) = lastImage st"
  by (simp add: lastImage_def addLog_def)

text \<open>Each branch of the dispatcher leaves an error exactly when the call fails.\<close>

lemma generate_image_error:
  "is_error (snd (run_generate_image env fc st)) =
     (case fc_args fc of
        None \<Rightarrow> True
      | Some args \<Rightarrow>
          (case generateImage env (args ''prompt'') of
             Throws \<Rightarrow> True | Returns imgData \<Rightarrow> \<not> truthy imgData))"
  by (simp add: run_generate_image_def Let_def is_error_def tool_failed_def
      split: option.split outcome.split)

lemma edit_current_image_error:
  "is_error (snd (run_edit_current_image env fc st)) =
     (case lastImage st of
        None \<Rightarrow> True
      | Some img \<Rightarrow>
          (case fc_args fc of
             None \<Rightarrow> True
           | Some args \<Rightarrow>
               (case editImage env (item_content img) (args ''instruction'') of
                  Throws \<Rightarrow> True | Returns newImg \<Rightarrow> \<not> truthy newImg)))"
  by (simp add: run_edit_current_image_def Let_def is_error_def tool_failed_def
      split: option.split outcome.split)

lemma search_web_error:
  "is_error (snd (run_search_web env fc st)) =
     (case fc_args fc of
        None \<Rightarrow> True
      | Some args \<Rightarrow> searchWeb env (args ''query'') = Throws)"
  by (simp add: run_search_web_def Let_def is_error_def tool_failed_def
      split: option.split outcome.split prod.split)

lemma see_and_analyze_error:
  "is_error (snd (run_see_and_analyze env fc st)) =
     (case handleCapture env of
        Throws \<Rightarrow> True
      | Returns frame \<Rightarrow>
          if truthy frame then
            (case fc_args fc of
               None \<Rightarrow> True
             | Some args \<Rightarrow> analyzeImage env (arg_content frame) (args ''question'') = Throws)
          else True)"
  by (simp add: run_see_and_analyze_def Let_def is_error_def tool_failed_def
      split: option.split outcome.split)

lemma analyze_uploaded_image_error:
  "is_error (snd (run_analyze_uploaded_image env fc st)) =
     (case lastImage st of
        None \<Rightarrow> True
      | Some img \<Rightarrow>
          (case fc_args fc of
             None \<Rightarrow> True
           | Some args \<Rightarrow> analyzeImage env (item_content img) (args ''question'') = Throws))"
  by (simp add: run_analyze_uploaded_image_def Let_def is_error_def tool_failed_def
      lastImage_addLog split: option.split outcome.split)

lemma read_inbox_messages_error: "\<not> is_error (snd (run_read_inbox_messages st))"
  by (simp add: run_read_inbox_messages_def Let_def is_error_def)

lemma edit_text_message_error:
  "is_error (snd (run_edit_text_message fc st)) =
     (case fc_args fc of
        None \<Rightarrow> True
      | Some args \<Rightarrow> (\<forall>item \<in> set (inboxRef st). Some (item_id item) \<noteq> args ''messageId''))"
  by (simp add: run_edit_text_message_def Let_def is_error_def tool_failed_def
      editInboxMessage_def addLog_def split: option.split)

lemma send_text_response_error:
  "is_error (snd (run_send_text_response env fc st)) = (fc_args fc = None)"
  by (simp add: run_send_text_response_def Let_def is_error_def tool_failed_def
      addToInbox_def split: option.split)

lemma think_deeply_error:
  "is_error (snd (run_think_deeply env fc st)) =
     (case fc_args fc of
        None \<Rightarrow> True
      | Some args \<Rightarrow> thinkHard env (args ''problem'') = Throws)"
  by (simp add: run_think_deeply_def Let_def is_error_def tool_failed_def
      split: option.split outcome.split)

lemma exec_tool_error: "is_error (snd (exec_tool env fc st)) = call_fails env fc st"
proof -
  have unknown: "is_error (snd (st, Error ''Unknown tool'')) = True"
    by (simp add: is_error_def)
  have reading: "is_error (snd (run_read_inbox_messages st)) = False"
    by (simp add: read_inbox_messages_error)
  have "is_error (snd (exec_tool env fc st)) =
     (if fc_name fc = Some ''generate_image'' then is_error (snd (run_generate_image env fc st))
      else if fc_name fc = Some ''edit_current_image''
        then is_error (snd (run_edit_current_image env fc st))
      else if fc_name fc = Some ''search_web'' then is_error (snd (run_search_web env fc st))
      else if fc_name fc = Some ''see_and_analyze''
        then is_error (snd (run_see_and_analyze env fc st))
      else if fc_name fc = Some ''analyze_uploaded_image''
        then is_error (snd (run_analyze_uploaded_image env fc st))
      else if fc_name fc = Some ''read_inbox_messages''
        then is_error (snd (run_read_inbox_messages st))
      else if fc_name fc = Some ''edit_text_message''
        then is_error (snd (run_edit_text_message fc st))
      else if fc_name fc = Some ''send_text_response''
        then is_error (snd (run_send_text_response env fc st))
      else if fc_name fc = Some ''think_deeply'' then is_error (snd (run_think_deeply env fc st))
      else is_error (snd (st, Error ''Unknown tool'')))"
    unfolding exec_tool_def by (simp only: if_distrib [of snd] if_distrib [of is_error])
  also have "\<dots> = call_fails env fc st"
    unfolding call_fails_def
    by (simp only: generate_image_error edit_current_image_error search_web_error
        see_and_analyze_error analyze_uploaded_image_error reading
        edit_text_message_error send_text_response_error think_deeply_error unknown)
  finally show ?thesis .
qed

lemma tool_responses_nth:
  "i < length fcs \<Longrightarrow>
     response (tool_responses env fcs st ! i) =
       snd (exec_tool env (fcs ! i) (tool_store env (take i fcs) st))"
proof (induction fcs arbitrary: st i)
  case Nil
  then show ?case by simp
next
  case (Cons fc fcs)
  show ?case
  proof (cases i)
    case 0
    then show ?thesis by simp
  next
    case (Suc j)
    with Cons.prems Cons.IH [of j] show ?thesis by simp
  qed
qed

lemma tool_responses_error:
  "i < length fcs \<Longrightarrow>
     is_error (response (tool_responses env fcs st ! i)) =
       call_fails env (fcs ! i) (tool_store env (take i fcs) st)"
  by (simp add: tool_responses_nth exec_tool_error)

lemma tool_responses_unknown:
  "i < length fcs \<Longrightarrow> fc_name (fcs ! i) \<notin> Some ` set known_tools \<Longrightarrow>
     response (tool_responses env fcs st ! i) = Error ''Unknown tool''"
  by (simp add: tool_responses_nth exec_tool_unknown)

lemma effects_tool_message:
  assumes "sessionRef s = Some Fulfilled" "microtasks s = []"
    "audioData m = None" "toolCall m = Some fcs"
  shows "effects (step env s (ServerMessage now m)) = effects s @
     map SendToolResponse
       (tool_responses env fcs (addLog System ''Executing tools...'' (ui s)))"
  using assms
  by (simp add: step_def job_def drain_eq onmessage_def run_tools_def tool_loop_eq add_log_def
      comp_def)

text \<open>
  The services of \<^verbatim>\<open>geminiService\<close> catch what the remote model throws: a web search, an
  analysis and a thought that have their arguments come back as a \<^verbatim>\<open>result\<close>, whatever
  the remote model does.
\<close>

lemma geminiService_search_web:
  "fc_name fc = Some ''search_web'' \<Longrightarrow> fc_args fc = Some args \<Longrightarrow>
     snd (exec_tool (with_geminiService generateContent env) fc st) =
       Result (fst (geminiService_searchWeb generateContent (args ''query'')))"
  by (simp add: exec_tool_def run_search_web_def with_geminiService_def Let_def
      split: prod.split)

lemma geminiService_think_deeply:
  "fc_name fc = Some ''think_deeply'' \<Longrightarrow> fc_args fc = Some args \<Longrightarrow>
     snd (exec_tool (with_geminiService generateContent env) fc st) =
       Result (geminiService_thinkHard generateContent (args ''problem''))"
  by (simp add: exec_tool_def run_think_deeply_def with_geminiService_def Let_def)

lemma geminiService_analyze_uploaded_image:
  "fc_name fc = Some ''analyze_uploaded_image'' \<Longrightarrow> fc_args fc = Some args \<Longrightarrow>
   lastImage st = Some img \<Longrightarrow>
     snd (exec_tool (with_geminiService generateContent env) fc st) =
       Result (geminiService_analyzeImage generateContent (item_content img) (args ''question''))"
  by (simp add: exec_tool_def run_analyze_uploaded_image_def with_geminiService_def Let_def
      lastImage_addLog)

lemma geminiService_remote_throws:
  "geminiService_searchWeb (\<lambda>request. Throws) query =
     (''I encountered an error searching the web.'', []) \<and>
   geminiService_generateImage (\<lambda>request. Throws) prompt = None \<and>
   geminiService_analyzeImage (\<lambda>request. Throws) img question = ''Error analyzing the image.'' \<and>
   geminiService_thinkHard (\<lambda>request. Throws) problem = ''Error during thinking process.''"
  by (simp add: geminiService_searchWeb_def geminiService_generateImage_def
      geminiService_analyzeImage_def geminiService_thinkHard_def split: content.split)


text \<open>
  A message that one call of a batch sends to the inbox is read by a later call of the
  batch when a collaborator was awaited in between, and is not when none was.
\<close>

lemma inbox_refreshed_behind_await:
  "map response (tool_responses (unreachable True)
     [\<lparr>fc_id = Some ''a'', fc_name = Some ''send_text_response'',
        fc_args = Some [''message'' \<mapsto> ''hi'']\<rparr>,
      \<lparr>fc_id = Some ''b'', fc_name = Some ''think_deeply'',
        fc_args = Some [''problem'' \<mapsto> ''why'']\<rparr>,
      \<lparr>fc_id = Some ''c'', fc_name = Some ''read_inbox_messages'', fc_args = None\<rparr>]
     \<lparr>logs = [], inbox = [], inboxRef = [], drawn = 0\<rparr>) =
   [Result ''Message sent to inbox. ID: m0'',
    Result ''Error during thinking process.'',
    Result (''Found 1 message(s):'' @ [CHR 0x0A, CHR 0x0A] @ ''[ID: m0] assistant: hi'')]"
  by (simp add: exec_tool_def run_send_text_response_def run_think_deeply_def
      run_read_inbox_messages_def unreachable_def offline_def with_geminiService_def
      geminiService_thinkHard_def addLog_def addToInbox_def sync_inboxRef_def arg_content_def
      Let_def join_def show_role_def show_content_def char_of_def bit_0)

lemma inbox_stale_without_await:
  "map response (tool_responses (unreachable True)
     [\<lparr>fc_id = Some ''a'', fc_name = Some ''send_text_response'',
        fc_args = Some [''message'' \<mapsto> ''hi'']\<rparr>,
      \<lparr>fc_id = Some ''c'', fc_name = Some ''read_inbox_messages'', fc_args = None\<rparr>]
     \<lparr>logs = [], inbox = [], inboxRef = [], drawn = 0\<rparr>) =
   [Result ''Message sent to inbox. ID: m0'', Result ''No text messages found in inbox.'']"
  by (simp add: exec_tool_def run_send_text_response_def
      run_read_inbox_messages_def unreachable_def offline_def with_geminiService_def
      addLog_def addToInbox_def arg_content_def Let_def char_of_def bit_0)


text \<open>
  C2 (as the code has it). A tool-call message that arrives while the session is open is
  answered call by call: the effects of the callback are exactly one
  \<^verbatim>\<open>sendToolResponse\<close> per function call, in the order of the calls, each with the
  \<open>id\<close> and the \<open>name\<close> of its call unchanged. The response of a call whose tool is
  unknown is the error \<open>Unknown tool\<close>. The response of a call is an error with a
  non-empty reason exactly when the call fails on the store the earlier calls of the
  message left: the tool is unknown, an argument is read of a call without arguments, what
  the tool needs is missing, or the collaborator it awaits throws. A failure that the
  collaborator reports in the text it returns, as the services of \<^verbatim>\<open>geminiService\<close> do,
  is sent back as a \<^verbatim>\<open>result\<close>.
\<close>

theorem tool_calls_answered:
  assumes "sessionRef s = Some Fulfilled" and "microtasks s = []"
    and "audioData m = None" and "toolCall m = Some fcs"
  shows "\<exists>rs. effects (step env s (ServerMessage now m)) = effects s @ map SendToolResponse rs \<and>
     map fr_id rs = map fc_id fcs \<and> map fr_name rs = map fc_name fcs \<and>
     (\<forall>i<length fcs.
        (fc_name (fcs ! i) \<notin> Some ` set known_tools \<longrightarrow>
           response (rs ! i) = Error ''Unknown tool'') \<and>
        is_error (response (rs ! i)) =
          call_fails env (fcs ! i)
            (tool_store env (take i fcs) (addLog System ''Executing tools...'' (ui s))))"
proof -
  let ?st = "addLog System ''Executing tools...'' (ui s)"
  let ?rs = "tool_responses env fcs ?st"
  have "effects (step env s (ServerMessage now m)) = effects s @ map SendToolResponse ?rs"
    using assms by (rule effects_tool_message)
  moreover have "map fr_id ?rs = map fc_id fcs" "map fr_name ?rs = map fc_name fcs"
    by (simp_all add: tool_responses_ids)
  moreover have "\<forall>i<length fcs.
        (fc_name (fcs ! i) \<notin> Some ` set known_tools \<longrightarrow>
           response (?rs ! i) = Error ''Unknown tool'') \<and>
        is_error (response (?rs ! i)) =
          call_fails env (fcs ! i) (tool_store env (take i fcs) ?st)"
    using tool_responses_unknown tool_responses_error by blast
  ultimately show ?thesis by blast
qed

theorem tool_calls_answered_witness:
  "\<exists>rs. effects (step (unreachable True) ((initial True)\<lparr>sessionRef := Some Fulfilled\<rparr>)
       (ServerMessage 0 \<lparr>audioData = None, toolCall = Some
          [\<lparr>fc_id = Some ''call-1'', fc_name = Some ''generate_image'',
            fc_args = Some [''prompt'' \<mapsto> ''a lighthouse'']\<rparr>,
           \<lparr>fc_id = Some ''call-2'', fc_name = Some ''fly_to_moon'', fc_args = None\<rparr>,
           \<lparr>fc_id = Some ''call-3'', fc_name = Some ''read_inbox_messages'',
            fc_args = None\<rparr>]\<rparr>)) =
       map SendToolResponse rs \<and>
     map fr_id rs = [Some ''call-1'', Some ''call-2'', Some ''call-3''] \<and>
     map fr_name rs = [Some ''generate_image'', Some ''fly_to_moon'',
       Some ''read_inbox_messages''] \<and>
     is_error (response (rs ! 0)) \<and> response (rs ! 1) = Error ''Unknown tool'' \<and>
     \<not> is_error (response (rs ! 2))"
proof -
  let ?s = "(initial True)\<lparr>sessionRef := Some Fulfilled\<rparr>"
  let ?fcs = "[\<lparr>fc_id = Some ''call-1'', fc_name = Some ''generate_image'',
            fc_args = Some [''prompt'' \<mapsto> ''a lighthouse'']\<rparr>,
           \<lparr>fc_id = Some ''call-2'', fc_name = Some ''fly_to_moon'', fc_args = None\<rparr>,
           \<lparr>fc_id = Some ''call-3'', fc_name = Some ''read_inbox_messages'',
            fc_args = None\<rparr>]"
  let ?m = "\<lparr>audioData = None, toolCall = Some ?fcs\<rparr>"
  let ?st = "addLog System ''Executing tools...'' (ui ?s)"
  have h: "sessionRef ?s = Some Fulfilled" "microtasks ?s = []" "audioData ?m = None"
    "toolCall ?m = Some ?fcs"
    by (simp_all add: initial_def)
  have f: "call_fails (unreachable True) (?fcs ! 0) (tool_store (unreachable True) (take 0 ?fcs) ?st)"
    by (simp add: call_fails_def unreachable_def with_geminiService_def
        geminiService_generateImage_def truthy_def)
  have u: "fc_name (?fcs ! 1) \<notin> Some ` set known_tools"
    by (simp add: known_tools_def)
  have r: "\<not> call_fails (unreachable True) (?fcs ! 2) (tool_store (unreachable True) (take 2 ?fcs) ?st)"
    by (simp add: call_fails_def)
  from tool_calls_answered [OF h, of "unreachable True" 0] obtain rs where
    rs: "effects (step (unreachable True) ?s (ServerMessage 0 ?m)) =
        effects ?s @ map SendToolResponse rs"
      "map fr_id rs = map fc_id ?fcs" "map fr_name rs = map fc_name ?fcs"
      "\<forall>i<length ?fcs.
        (fc_name (?fcs ! i) \<notin> Some ` set known_tools \<longrightarrow>
           response (rs ! i) = Error ''Unknown tool'') \<and>
        is_error (response (rs ! i)) =
          call_fails (unreachable True) (?fcs ! i)
            (tool_store (unreachable True) (take i ?fcs) ?st)"
    by (elim exE conjE) (rule that)
  from rs(4) have "is_error (response (rs ! 0)) =
      call_fails (unreachable True) (?fcs ! 0) (tool_store (unreachable True) (take 0 ?fcs) ?st)"
    by (elim allE [of _ 0]) simp
  with f have "is_error (response (rs ! 0))" by blast
  moreover from rs(4) u have "response (rs ! 1) = Error ''Unknown tool''"
    by (elim allE [of _ 1]) simp
  moreover from rs(4) have "is_error (response (rs ! 2)) =
      call_fails (unreachable True) (?fcs ! 2) (tool_store (unreachable True) (take 2 ?fcs) ?st)"
    by (elim allE [of _ 2]) simp
  with r have "\<not> is_error (response (rs ! 2))" by blast
  moreover have "effects ?s = []" by (simp add: initial_def)
  ultimately show ?thesis using rs(1-3) by (intro exI [of _ rs]) simp
qed

text \<open>
  A capability that is unavailable does not always give an \<^verbatim>\<open>error\<close> field: when the
  remote model cannot be reached, \<^verbatim>\<open>geminiService.searchWeb\<close> returns the text of its
  \<^verbatim>\<open>catch\<close> clause, and the answer to a \<^verbatim>\<open>search_web\<close> call carries that text in
  a \<^verbatim>\<open>result\<close> field.
\<close>

theorem tool_result_counterexample:
  "effects (step (unreachable True) ((initial True)\<lparr>sessionRef := Some Fulfilled\<rparr>)
       (ServerMessage 0 \<lparr>audioData = None, toolCall = Some
          [\<lparr>fc_id = Some ''call-1'', fc_name = Some ''search_web'',
            fc_args = Some [''query'' \<mapsto> ''weather'']\<rparr>]\<rparr>)) =
     [SendToolResponse \<lparr>fr_id = Some ''call-1'', fr_name = Some ''search_web'',
        response = Result ''I encountered an error searching the web.''\<rparr>] \<and>
   \<not> is_error (Result ''I encountered an error searching the web.'')"
proof -
  let ?s = "(initial True)\<lparr>sessionRef := Some Fulfilled\<rparr>"
  let ?fc = "\<lparr>fc_id = Some ''call-1'', fc_name = Some ''search_web'',
            fc_args = Some [''query'' \<mapsto> ''weather'']\<rparr>"
  let ?m = "\<lparr>audioData = None, toolCall = Some [?fc]\<rparr>"
  have h: "sessionRef ?s = Some Fulfilled" "microtasks ?s = []" "audioData ?m = None"
    "toolCall ?m = Some [?fc]"
    by (simp_all add: initial_def)
  have "snd (exec_tool (unreachable True) ?fc st) =
      Result ''I encountered an error searching the web.''" for st
    unfolding unreachable_def
    by (simp add: geminiService_search_web [where args = "[''query'' \<mapsto> ''weather'']"]
        geminiService_remote_throws)
  moreover have "effects ?s = []" by (simp add: initial_def)
  ultimately show ?thesis
    using effects_tool_message [OF h, of "unreachable True" 0]
    by (simp add: is_error_def)
qed

subsection \<open>A session without a microphone\<close>

lemma frames_of_append: "frames_of (xs @ ys) = frames_of xs @ frames_of ys"
  by (induction xs rule: frames_of.induct) simp_all


lemma disconnect_fields:
  "processorRef (disconnect s) = None" "stream (disconnect s) = stream s"
  "nextStartTimeRef (disconnect s) = nextStartTimeRef s"
  "bgNoiseRef (disconnect s) = None"
  by (simp_all add: disconnect_def Let_def emit_def then_session_def
      split: option.split promise.split)




lemma tool_loop_fields:
  "processorRef (tool_loop env fcs s) = processorRef s" "stream (tool_loop env fcs s) = stream s"
  "effects (tool_loop env fcs s) = effects s"
  "nextStartTimeRef (tool_loop env fcs s) = nextStartTimeRef s"
  "bgNoiseRef (tool_loop env fcs s) = bgNoiseRef s"
  by (simp_all add: tool_loop_eq split: option.split promise.split)

lemma play_audio_fields:
  "processorRef (snd (play_audio env now chunk s)) = processorRef s"
  "stream (snd (play_audio env now chunk s)) = stream s"
  "bgNoiseRef (snd (play_audio env now chunk s)) = bgNoiseRef s"
  "frames_of (effects (snd (play_audio env now chunk s))) = frames_of (effects s)"
  by (simp_all add: play_audio_def Let_def emit_def frames_of_append split: option.split sum.split)

lemma onmessage_fields:
  "processorRef (onmessage env now m s) = processorRef s"
  "stream (onmessage env now m s) = stream s"
  "bgNoiseRef (onmessage env now m s) = bgNoiseRef s"
  "frames_of (effects (onmessage env now m s)) = frames_of (effects s)"
  by (simp_all add: onmessage_def run_tools_def tool_loop_fields play_audio_fields add_log_def
      split_beta split: option.split)




lemma connect_fields:
  assumes "api_key env"
  shows "mode (connectToLiveAPI env s) = LISTENING" "connected (connectToLiveAPI env s)"
    "sessionRef (connectToLiveAPI env s) = Some Pending"
    "stream (connectToLiveAPI env s) = (if getUserMedia env then Some Handle else None)"
    "processorRef (connectToLiveAPI env s) = processorRef s"
    "audioContextRef (connectToLiveAPI env s) \<noteq> None"
    "waiters (connectToLiveAPI env s) = waiters s"
    "microtasks (connectToLiveAPI env s) = microtasks s"
    "nextStartTimeRef (connectToLiveAPI env s) = nextStartTimeRef s"
    "callFilterAtConnect (connectToLiveAPI env s) = callFilterEnabled s"
  using assms
  by (simp_all add: connectToLiveAPI_def Let_def add_log_def emit_def split: option.split)


lemma opening_run:
  assumes "sessionRef s = Some Pending" "waiters s = []" "microtasks s = []"
  shows "effects (run env s [SessionOpened r, SessionFulfilled]) = effects s @
      [SendClientContent (''System Event: '' @
         (if 0 \<le> r \<and> r < 1 then contexts ! nat \<lfloor>r * real (length contexts)\<rfloor> else ''undefined'') @
         ''. Greet the user naturally based on this context. Keep it short.'')]"
    "sessionRef (run env s [SessionOpened r, SessionFulfilled]) = Some Fulfilled"
    "microtasks (run env s [SessionOpened r, SessionFulfilled]) = []"
    "audioContextRef (run env s [SessionOpened r, SessionFulfilled]) = audioContextRef s"
    "nextStartTimeRef (run env s [SessionOpened r, SessionFulfilled]) = nextStartTimeRef s"
    "callFilterAtConnect (run env s [SessionOpened r, SessionFulfilled]) = callFilterAtConnect s"
    "mode (run env s [SessionOpened r, SessionFulfilled]) = mode s"
  using assms
  by (simp_all add: run_def step_def job_def drain_eq onopen_def onfulfilled_def then_session_def
      add_log_def Let_def)



subsection \<open>The noise bed\<close>

lemma noise_stops_append: "noise_stops (xs @ ys) = noise_stops xs + noise_stops ys"
  by (induction xs rule: noise_stops.induct) simp_all

lemma noise_stops_reactions: "noise_stops (concat (map (reaction_effects p) rs)) = 0"
proof (induction rs)
  case Nil
  show ?case by simp
next
  case (Cons r rs)
  then show ?case by (cases r) (simp_all add: noise_stops_append)
qed

lemma job_noise:
  "bgNoiseRef (job h s) = bgNoiseRef (h s)"
  "noise_stops (effects (job h s)) = noise_stops (effects (h s))"
  by (simp_all add: job_def drain_eq noise_stops_append noise_stops_reactions)

lemma onmessage_noise_stops:
  "noise_stops (effects (onmessage env now m s)) = noise_stops (effects s)"
  by (simp add: onmessage_def run_tools_def tool_loop_fields play_audio_def add_log_def emit_def
      Let_def noise_stops_append split_beta split: option.split sum.split)

lemma step_keeps_noise:
  assumes "\<not> tears_down ev"
  shows "bgNoiseRef (step env s ev) = bgNoiseRef s"
    "noise_stops (effects (step env s ev)) = noise_stops (effects s)"
  unfolding step_def job_noise using assms
  by (cases ev;
      simp add: onopen_def onfulfilled_def onmessage_fields onmessage_noise_stops onended_def
        volume_tick_def onaudioprocess_def add_log_def then_session_def Let_def
        split: option.split promise.split)+

lemma run_keeps_noise:
  assumes "list_all (\<lambda>ev. \<not> tears_down ev) evs"
  shows "bgNoiseRef (run env s evs) = bgNoiseRef s \<and>
    noise_stops (effects (run env s evs)) = noise_stops (effects s)"
  using assms
proof (induction evs arbitrary: s)
  case Nil
  show ?case by (simp add: run_def)
next
  case (Cons ev evs)
  have "run env s (ev # evs) = run env (step env s ev) evs" by (simp add: run_def)
  with Cons.IH [of "step env s ev"] Cons.prems step_keeps_noise [of ev env s]
  show ?case by simp
qed

lemma disconnect_noise_stops:
  "noise_stops (effects (disconnect s)) =
     noise_stops (effects s) + (if bgNoiseRef s \<noteq> None then 1 else 0)"
  by (simp add: disconnect_def Let_def emit_def then_session_def noise_stops_append
      split: option.split promise.split)

lemma step_stops_noise:
  assumes "tears_down ev"
  shows "bgNoiseRef (step env s ev) = None"
    "noise_stops (effects (step env s ev)) =
       noise_stops (effects s) + (if bgNoiseRef s \<noteq> None then 1 else 0)"
  unfolding step_def job_noise using assms
  by (cases ev;
      simp add: onrejected_def onclose_def onerror_def disconnect_fields disconnect_noise_stops
        add_log_def)+

lemma length_noise_samples: "length (noise_samples rnd n k p) = n"
  by (induction n arbitrary: k p) (simp_all add: Let_def)

lemma connect_noise:
  assumes "api_key env" "bgNoiseRef s = None"
  shows "callFilterEnabled s \<Longrightarrow>
      \<exists>noise rate. bgNoiseRef (connectToLiveAPI env s) = Some noise \<and>
        audioContextRef (connectToLiveAPI env s) = Some rate \<and>
        length (noise_buffer noise) = rate * 2 \<and> loop noise \<and> noise_gain noise = 0.018"
    "callFilterEnabled s \<Longrightarrow> effects (connectToLiveAPI env s) = effects s @ [NoiseStarted]"
    "\<not> callFilterEnabled s \<Longrightarrow> bgNoiseRef (connectToLiveAPI env s) = None"
    "\<not> callFilterEnabled s \<Longrightarrow> effects (connectToLiveAPI env s) = effects s"
  using assms
  by (simp_all add: connectToLiveAPI_def Let_def add_log_def emit_def make_noise_def
      length_noise_samples split: option.split)


text \<open>
  C8 (as the code has it). A session that is started while the phone filter is enabled
  starts the noise bed: a looped source of two seconds of synthesized noise at gain
  \<open>0.018\<close>. No event but a teardown
  touches it or stops it, whatever the speech activity; a teardown stops it once and
  releases it. A session started with the filter disabled has no noise bed.
\<close>

theorem noise_bed_lifetime:
  assumes "api_key env" and "bgNoiseRef s0 = None"
  shows "\<exists>s1. s1 = connectToLiveAPI env s0 \<and>
     (callFilterEnabled s0 \<longrightarrow>
        (\<exists>noise rate. bgNoiseRef s1 = Some noise \<and> audioContextRef s1 = Some rate \<and>
           length (noise_buffer noise) = rate * 2 \<and> loop noise \<and> noise_gain noise = 0.018) \<and>
        effects s1 = effects s0 @ [NoiseStarted]) \<and>
     (\<not> callFilterEnabled s0 \<longrightarrow> bgNoiseRef s1 = None \<and> effects s1 = effects s0) \<and>
     (list_all (\<lambda>ev. \<not> tears_down ev) evs \<longrightarrow>
        bgNoiseRef (run env s1 evs) = bgNoiseRef s1 \<and>
        noise_stops (effects (run env s1 evs)) = noise_stops (effects s0)) \<and>
     (tears_down ev \<longrightarrow>
        bgNoiseRef (step env (run env s1 evs) ev) = None \<and>
        noise_stops (effects (step env (run env s1 evs) ev)) =
          noise_stops (effects (run env s1 evs)) +
          (if bgNoiseRef (run env s1 evs) \<noteq> None then 1 else 0))"
proof -
  let ?s1 = "connectToLiveAPI env s0"
  note c = connect_noise [OF assms]
  have n: "noise_stops (effects ?s1) = noise_stops (effects s0)"
    using c(2,4) by (cases "callFilterEnabled s0") (simp_all add: noise_stops_append)
  have "bgNoiseRef (run env ?s1 evs) = bgNoiseRef ?s1 \<and>
        noise_stops (effects (run env ?s1 evs)) = noise_stops (effects s0)"
    if "list_all (\<lambda>ev. \<not> tears_down ev) evs"
    using run_keeps_noise [OF that, of env ?s1] n by simp
  moreover have "bgNoiseRef (step env (run env ?s1 evs) ev) = None \<and>
        noise_stops (effects (step env (run env ?s1 evs) ev)) =
          noise_stops (effects (run env ?s1 evs)) +
          (if bgNoiseRef (run env ?s1 evs) \<noteq> None then 1 else 0)"
    if "tears_down ev"
    using step_stops_noise [OF that, of env "run env ?s1 evs"] by simp
  ultimately show ?thesis using c by blast
qed

theorem noise_bed_lifetime_witness:
  "(\<exists>noise rate. bgNoiseRef (connectToLiveAPI (offline True) (initial True)) = Some noise \<and>
      audioContextRef (connectToLiveAPI (offline True) (initial True)) = Some rate \<and>
      length (noise_buffer noise) = rate * 2 \<and> loop noise \<and> noise_gain noise = 0.018) \<and>
   effects (connectToLiveAPI (offline True) (initial True)) = [NoiseStarted] \<and>
   bgNoiseRef (run (offline True) (connectToLiveAPI (offline True) (initial True))
     [SessionOpened (1 / 2), SessionFulfilled,
      ServerMessage 0 \<lparr>audioData = Some ''/n8='', toolCall = None\<rparr>, SourceEnded 1]) =
     bgNoiseRef (connectToLiveAPI (offline True) (initial True)) \<and>
   noise_stops (effects (run (offline True) (connectToLiveAPI (offline True) (initial True))
     [SessionOpened (1 / 2), SessionFulfilled,
      ServerMessage 0 \<lparr>audioData = Some ''/n8='', toolCall = None\<rparr>, SourceEnded 1])) = 0 \<and>
   bgNoiseRef (step (offline True)
     (run (offline True) (connectToLiveAPI (offline True) (initial True))
       [SessionOpened (1 / 2), SessionFulfilled,
        ServerMessage 0 \<lparr>audioData = Some ''/n8='', toolCall = None\<rparr>, SourceEnded 1])
     UserDisconnect) = None"
proof -
  have h: "api_key (offline True)" "bgNoiseRef (initial True) = None"
    by (simp_all add: offline_def initial_def)
  have e: "effects (initial True) = []" "callFilterEnabled (initial True)"
    by (simp_all add: initial_def)
  from noise_bed_lifetime [OF h, of
      "[SessionOpened (1 / 2), SessionFulfilled,
        ServerMessage 0 \<lparr>audioData = Some ''/n8='', toolCall = None\<rparr>, SourceEnded 1]"
      UserDisconnect]
  show ?thesis using e by simp
qed

text \<open>
  A session that is started with the phone filter disabled opens and greets, and has no
  noise bed: nothing was started.
\<close>

theorem noise_bed_counterexample:
  "mode (run (offline True) (connectToLiveAPI (offline True) (initial False))
     [SessionOpened (1 / 2), SessionFulfilled]) = LISTENING \<and>
   effects (run (offline True) (connectToLiveAPI (offline True) (initial False))
     [SessionOpened (1 / 2), SessionFulfilled]) = [SendClientContent greeting] \<and>
   bgNoiseRef (run (offline True) (connectToLiveAPI (offline True) (initial False))
     [SessionOpened (1 / 2), SessionFulfilled]) = None"
proof -
  let ?s1 = "connectToLiveAPI (offline True) (initial False)"
  have k: "api_key (offline True)" by (simp add: offline_def)
  have i: "bgNoiseRef (initial False) = None" "\<not> callFilterEnabled (initial False)"
    "waiters (initial False) = []" "microtasks (initial False) = []"
    "effects (initial False) = []"
    by (simp_all add: initial_def)
  note c = connect_fields [OF k, of "initial False"]
  have p: "sessionRef ?s1 = Some Pending" "waiters ?s1 = []" "microtasks ?s1 = []"
    using c i by simp_all
  note o = opening_run [OF p, of "offline True" "1 / 2"]
  have n: "bgNoiseRef ?s1 = None" "effects ?s1 = []"
    using connect_noise(3,4) [OF k i(1) i(2)] i(5) by simp_all
  have g: "''System Event: '' @
         (if 0 \<le> (1 / 2 :: real) \<and> (1 / 2 :: real) < 1
          then contexts ! nat \<lfloor>1 / 2 * real (length contexts)\<rfloor> else ''undefined'') @
         ''. Greet the user naturally based on this context. Keep it short.'' = greeting"
    by (simp add: contexts_def greeting_def)
  have "list_all (\<lambda>ev. \<not> tears_down ev) [SessionOpened (1 / 2), SessionFulfilled]" by simp
  from run_keeps_noise [OF this, of "offline True" ?s1]
  have "bgNoiseRef (run (offline True) ?s1 [SessionOpened (1 / 2), SessionFulfilled]) = None"
    using n by simp
  moreover have "effects (run (offline True) ?s1 [SessionOpened (1 / 2), SessionFulfilled]) =
      [SendClientContent greeting]"
    unfolding o(1) g n by simp
  moreover have "mode (run (offline True) ?s1 [SessionOpened (1 / 2), SessionFulfilled]) = LISTENING"
    using o(7) c(1) by simp
  ultimately show ?thesis by simp
qed

subsection \<open>The phone filter of a session\<close>

lemma run_at_connect: "callFilterAtConnect (run env s evs) = callFilterAtConnect s"
proof (induction evs arbitrary: s)
  case Nil
  show ?case by (simp add: run_def)
next
  case (Cons ev evs)
  have "run env s (ev # evs) = run env (step env s ev) evs" by (simp add: run_def)
  with Cons.IH [of "step env s ev"] step_flags(1) [of env s ev] show ?case by simp
qed

text \<open>
  The curve of the wave shaper: 44100 points, all of them below one half in absolute
  value, so the shaper never drives the signal to the edge of the range.
\<close>

lemma length_makeDistortionCurve: "length (makeDistortionCurve k) = 44100"
  by (simp add: makeDistortionCurve_def Let_def)

lemma saturation_bound:
  fixes a :: real
  assumes "0 \<le> a" "a \<le> 1"
  shows "16 * pi * a < 9 * pi + 45 * a"
proof -
  have "pi * a \<le> pi * 1" using assms pi_gt_zero by (intro mult_left_mono) simp_all
  moreover have "pi * a \<le> 4 * a" using assms pi_less_4 by (intro mult_right_mono) simp_all
  ultimately have "16 * (pi * a) \<le> 8 * pi + 32 * a" by linarith
  then have "16 * pi * a \<le> 8 * pi + 32 * a" by (simp only: mult.assoc)
  also have "\<dots> < 9 * pi + 45 * a" using assms pi_gt_zero by linarith
  finally show ?thesis .
qed

lemma makeDistortionCurve_bound:
  assumes "i < 44100"
  shows "\<bar>makeDistortionCurve 5 ! i\<bar> < 1 / 2"
proof -
  define x where "x = real i * 2 / 44100 - 1"
  have r: "0 \<le> real i" "real i < 44100" using assms by simp_all
  have xb: "0 \<le> \<bar>x\<bar>" "\<bar>x\<bar> \<le> 1" using r unfolding x_def by simp_all
  have l: "i < length [0..<44100]" using assms by simp
  have u: "[0..<44100] ! i = i" using assms by simp
  have "makeDistortionCurve 5 ! i =
      (3 + 5) * (real ([0..<44100] ! i) * 2 / real 44100 - 1) * 20 * (pi / 180) /
        (pi + 5 * \<bar>real ([0..<44100] ! i) * 2 / real 44100 - 1\<bar>)"
    unfolding makeDistortionCurve_def Let_def by (rule nth_map [OF l])
  also have "\<dots> = 8 * x * 20 * (pi / 180) / (pi + 5 * \<bar>x\<bar>)"
    unfolding u x_def by simp
  finally have c: "makeDistortionCurve 5 ! i = 8 * x * 20 * (pi / 180) / (pi + 5 * \<bar>x\<bar>)" .
  have d: "0 < pi + 5 * \<bar>x\<bar>" using pi_gt_zero xb(1) by (simp add: add_pos_nonneg)
  have "\<bar>8 * x * 20 * (pi / 180) / (pi + 5 * \<bar>x\<bar>)\<bar> = (8 * pi * \<bar>x\<bar> / 9) / (pi + 5 * \<bar>x\<bar>)"
    using d pi_gt_zero by (simp add: abs_mult)
  also have "\<dots> < 1 / 2"
    using d saturation_bound [OF xb] by (simp add: divide_simps)
  finally show ?thesis unfolding c .
qed


text \<open>
  C7 (as the code has it). A decoded buffer is started on a graph that has one route from
  the source to the destination: with the phone filter on, through the high-pass at
  300 Hz, the wave shaper with the curve of amount 5 (44100 points, each below one half in
  absolute value) at oversampling \<open>4x\<close>, the low-pass at 3400 Hz and the gain of 0.85, in
  that order; with it off, the direct connection, with no node in between. The switch is
  not the setting: it is the value of \<^verbatim>\<open>callFilterEnabled\<close> that the callbacks of the
  session closed over when \<^verbatim>\<open>connectToLiveAPI\<close> ran, and it stays that value whatever
  happens during the session, a change of the setting included. It is the value of the
  setting as long as the setting is not switched.
\<close>

theorem phone_filter_routing:
  assumes "microtasks s = []" "audioContextRef s \<noteq> None"
    "audioData m = Some chunk" "chunk \<noteq> []" "toolCall m = None"
    "decodeAudioData (atob env) chunk = Inr buffer"
  shows "\<exists>g. effects (step env s (ServerMessage now m)) =
           effects s @ [SourceStarted (max now (nextStartTimeRef s)) buffer g] \<and>
         output_routes g = (if callFilterAtConnect s then [phone_chain] else [[]]) \<and>
         phone_chain = [BiquadFilter Highpass 300, WaveShaper (makeDistortionCurve 5) ''4x'',
           BiquadFilter Lowpass 3400, Gain 0.85] \<and>
         length (makeDistortionCurve 5) = 44100 \<and>
         (\<forall>i<44100. \<bar>makeDistortionCurve 5 ! i\<bar> < 1 / 2) \<and>
         (api_key env \<longrightarrow>
            callFilterAtConnect (run env (connectToLiveAPI env s0) evs) = callFilterEnabled s0) \<and>
         (api_key env \<and> CallFilterToggled \<notin> set evs \<longrightarrow>
            callFilterEnabled (run env (connectToLiveAPI env s0) evs) = callFilterEnabled s0)"
proof -
  have a: "callFilterAtConnect (run env (connectToLiveAPI env s0) evs) = callFilterEnabled s0"
    if "api_key env"
    using that run_at_connect [of env "connectToLiveAPI env s0" evs] connect_flags(1) [of env s0]
    by simp
  have b: "callFilterEnabled (run env (connectToLiveAPI env s0) evs) = callFilterEnabled s0"
    if "api_key env \<and> CallFilterToggled \<notin> set evs"
    using that run_flags [of evs env "connectToLiveAPI env s0"] connect_flags(2) [of env s0]
    by simp
  have c: "length (makeDistortionCurve 5) = 44100" by (rule length_makeDistortionCurve)
  have d: "\<forall>i<44100. \<bar>makeDistortionCurve 5 ! i\<bar> < 1 / 2"
    using makeDistortionCurve_bound by blast
  have e: "output_routes (playback_graph (callFilterAtConnect s)) =
      (if callFilterAtConnect s then [phone_chain] else [[]])"
    using routes_phone routes_direct by simp
  have f: "phone_chain = [BiquadFilter Highpass 300, WaveShaper (makeDistortionCurve 5) ''4x'',
      BiquadFilter Lowpass 3400, Gain 0.85]"
    by (rule phone_chain_def)
  from effects_audio_message [OF assms] a b c d e f show ?thesis by blast
qed

theorem phone_filter_routing_witness:
  "\<exists>g. effects (step (offline True) ((initial True)\<lparr>audioContextRef := Some 24000\<rparr>)
          (ServerMessage 0 \<lparr>audioData = Some ''/n8='', toolCall = None\<rparr>)) =
        [SourceStarted 0 \<lparr>channelData = [16383 / 16384], sampleRate = 24000\<rparr> g] \<and>
      output_routes g = [[BiquadFilter Highpass 300, WaveShaper (makeDistortionCurve 5) ''4x'',
           BiquadFilter Lowpass 3400, Gain 0.85]]"
proof -
  let ?s = "(initial True)\<lparr>audioContextRef := Some 24000\<rparr>"
  let ?m = "\<lparr>audioData = Some ''/n8='', toolCall = None\<rparr>"
  have h: "microtasks ?s = []" "audioContextRef ?s \<noteq> None" "audioData ?m = Some ''/n8=''"
    "''/n8='' \<noteq> []" "toolCall ?m = None"
    by (simp_all add: initial_def)
  have d: "decodeAudioData (atob (offline True)) ''/n8='' =
      Inr \<lparr>channelData = [16383 / 16384], sampleRate = 24000\<rparr>"
    using example_decode by (simp add: offline_def)
  have e: "effects ?s = []" "max 0 (nextStartTimeRef ?s) = 0" "callFilterAtConnect ?s"
    by (simp_all add: initial_def)
  from phone_filter_routing [OF h d, of 0 "initial True" "[]"]
  obtain g where
    "effects (step (offline True) ?s (ServerMessage 0 ?m)) =
       effects ?s @ [SourceStarted (max 0 (nextStartTimeRef ?s))
         \<lparr>channelData = [16383 / 16384], sampleRate = 24000\<rparr> g]"
    "output_routes g = (if callFilterAtConnect ?s then [phone_chain] else [[]])"
    by (elim exE conjE) (rule that)
  then show ?thesis
    unfolding e phone_chain_def by (intro exI [of _ g]) (simp add: initial_def)
qed

text \<open>
  The routing does not follow the setting when the setting is switched while a session
  runs. A session is started with the filter off, opens and greets; then the setting is
  switched on. The next decoded buffer is still connected directly to the destination,
  though the setting is on.
\<close>

theorem phone_filter_toggle_counterexample:
  "callFilterEnabled (run (offline True) (connectToLiveAPI (offline True) (initial False))
     [SessionOpened (1 / 2), SessionFulfilled, CallFilterToggled]) \<and>
   effects (step (offline True)
       (run (offline True) (connectToLiveAPI (offline True) (initial False))
          [SessionOpened (1 / 2), SessionFulfilled, CallFilterToggled])
       (ServerMessage 0 \<lparr>audioData = Some ''/n8='', toolCall = None\<rparr>)) =
     [SendClientContent greeting,
      SourceStarted 0 \<lparr>channelData = [16383 / 16384], sampleRate = 24000\<rparr>
        (playback_graph False)] \<and>
   output_routes (playback_graph False) = [[]]"
proof -
  let ?s1 = "connectToLiveAPI (offline True) (initial False)"
  let ?s2 = "run (offline True) ?s1 [SessionOpened (1 / 2), SessionFulfilled]"
  let ?s3 = "run (offline True) ?s1 [SessionOpened (1 / 2), SessionFulfilled, CallFilterToggled]"
  let ?m = "\<lparr>audioData = Some ''/n8='', toolCall = None\<rparr>"
  have k: "api_key (offline True)" by (simp add: offline_def)
  have i: "bgNoiseRef (initial False) = None" "\<not> callFilterEnabled (initial False)"
    "waiters (initial False) = []" "microtasks (initial False) = []"
    "effects (initial False) = []" "nextStartTimeRef (initial False) = 0"
    by (simp_all add: initial_def)
  note c = connect_fields [OF k, of "initial False"]
  have p: "sessionRef ?s1 = Some Pending" "waiters ?s1 = []" "microtasks ?s1 = []"
    using c i by simp_all
  note o = opening_run [OF p, of "offline True" "1 / 2"]
  have n: "effects ?s1 = []" using connect_noise(4) [OF k i(1) i(2)] i(5) by simp
  have g: "''System Event: '' @
         (if 0 \<le> (1 / 2 :: real) \<and> (1 / 2 :: real) < 1
          then contexts ! nat \<lfloor>1 / 2 * real (length contexts)\<rfloor> else ''undefined'') @
         ''. Greet the user naturally based on this context. Keep it short.'' = greeting"
    by (simp add: contexts_def greeting_def)
  have t: "?s3 = ?s2\<lparr>callFilterEnabled := \<not> callFilterEnabled ?s2\<rparr>"
    by (simp add: run_def step_def job_def drain_eq o(3) [unfolded run_def, simplified])
  have e2: "effects ?s2 = [SendClientContent greeting]" unfolding o(1) g n by simp
  have f2: "\<not> callFilterEnabled ?s2"
    using run_flags [of "[SessionOpened (1 / 2), SessionFulfilled]" "offline True" ?s1]
      connect_flags(2) [of "offline True" "initial False"] i(2) by simp
  have a2: "\<not> callFilterAtConnect ?s2" using o(6) c(10) i(2) by simp
  have h: "microtasks ?s3 = []" "audioContextRef ?s3 \<noteq> None" "audioData ?m = Some ''/n8=''"
    "''/n8='' \<noteq> []" "toolCall ?m = None"
    unfolding t using o(3) o(4) c(6) by simp_all
  have d: "decodeAudioData (atob (offline True)) ''/n8='' =
      Inr \<lparr>channelData = [16383 / 16384], sampleRate = 24000\<rparr>"
    using example_decode by (simp add: offline_def)
  have v: "effects ?s3 = [SendClientContent greeting]" "nextStartTimeRef ?s3 = 0"
    "\<not> callFilterAtConnect ?s3" "callFilterEnabled ?s3"
    unfolding t using e2 f2 a2 o(5) c(9) i(6) by simp_all
  have "effects (step (offline True) ?s3 (ServerMessage 0 ?m)) =
      [SendClientContent greeting,
       SourceStarted 0 \<lparr>channelData = [16383 / 16384], sampleRate = 24000\<rparr>
         (playback_graph False)]"
    using v by (simp add: effects_audio_message [OF h d, of 0])
  with v(4) routes_direct show ?thesis by simp
qed

subsection \<open>The playback scheduler\<close>

lemma slots_of_append: "slots_of (xs @ ys) = slots_of xs @ slots_of ys"
  by (induction xs rule: slots_of.induct) simp_all

lemma slots_of_reactions: "slots_of (concat (map (reaction_effects p) rs)) = []"
proof (induction rs)
  case Nil
  show ?case by simp
next
  case (Cons r rs)
  then show ?case by (cases r) (simp_all add: slots_of_append)
qed

lemma duration_nonneg: "0 \<le> duration b"
  by (simp add: duration_def)

lemma job_slots:
  "slots_of (effects (job h s)) = slots_of (effects (h s))"
  "nextStartTimeRef (job h s) = nextStartTimeRef (h s)"
  by (simp_all add: job_def drain_eq slots_of_append slots_of_reactions)

lemma slots_disconnect: "slots_of (effects (disconnect s)) = slots_of (effects s)"
  by (simp add: disconnect_def Let_def emit_def then_session_def slots_of_append
      split: option.split promise.split)

text \<open>What \<^verbatim>\<open>onmessage\<close> schedules: nothing, or one slot at \<open>max now nextStartTime\<close>.\<close>

lemma onmessage_slots:
  "(slots_of (effects (onmessage env now m s)) = slots_of (effects s) \<and>
    nextStartTimeRef (onmessage env now m s) = nextStartTimeRef s) \<or>
   (\<exists>b. slots_of (effects (onmessage env now m s)) = slots_of (effects s) @
          [(max now (nextStartTimeRef s), max now (nextStartTimeRef s) + duration b)] \<and>
        nextStartTimeRef (onmessage env now m s) = max now (nextStartTimeRef s) + duration b)"
  by (auto simp add: onmessage_def run_tools_def tool_loop_fields play_audio_def add_log_def
      emit_def Let_def slots_of_append split: option.split sum.split)

lemma onmessage_slot:
  assumes "audioContextRef s \<noteq> None" "audioData m = Some chunk" "chunk \<noteq> []"
    "decodeAudioData (atob env) chunk = Inr buffer"
  shows "slots_of (effects (onmessage env now m s)) = slots_of (effects s) @
          [(max now (nextStartTimeRef s), max now (nextStartTimeRef s) + duration buffer)]"
    "nextStartTimeRef (onmessage env now m s) = max now (nextStartTimeRef s) + duration buffer"
  using assms
  by (auto simp add: onmessage_def run_tools_def tool_loop_fields play_audio_def add_log_def
      emit_def Let_def slots_of_append split: option.split)

lemma step_slots:
  "(slots_of (effects (step env s ev)) = slots_of (effects s) \<and>
    nextStartTimeRef (step env s ev) = nextStartTimeRef s) \<or>
   (\<exists>now b. slots_of (effects (step env s ev)) = slots_of (effects s) @
          [(max now (nextStartTimeRef s), max now (nextStartTimeRef s) + duration b)] \<and>
        nextStartTimeRef (step env s ev) = max now (nextStartTimeRef s) + duration b)"
proof (cases ev)
  case (ServerMessage now m)
  then show ?thesis
    unfolding step_def job_slots using onmessage_slots [of env now m s] by auto
qed (simp_all add: step_def job_slots onopen_def onfulfilled_def onrejected_def onended_def
      volume_tick_def onaudioprocess_def onclose_def onerror_def disconnect_fields
      slots_disconnect add_log_def then_session_def Let_def
      split: option.split promise.split)


lemma step_schedule:
  assumes "sorted_wrt (\<lambda>a b. snd a \<le> fst b) (slots_of (effects s))"
    and "\<forall>x\<in>set (slots_of (effects s)). snd x \<le> nextStartTimeRef s"
  shows "sorted_wrt (\<lambda>a b. snd a \<le> fst b) (slots_of (effects (step env s ev)))"
    and "\<forall>x\<in>set (slots_of (effects (step env s ev))). snd x \<le> nextStartTimeRef (step env s ev)"
    and "nextStartTimeRef s \<le> nextStartTimeRef (step env s ev)"
proof -
  consider
    (same) "slots_of (effects (step env s ev)) = slots_of (effects s)"
      "nextStartTimeRef (step env s ev) = nextStartTimeRef s"
  | (slot) now b where "slots_of (effects (step env s ev)) = slots_of (effects s) @
          [(max now (nextStartTimeRef s), max now (nextStartTimeRef s) + duration b)]"
      "nextStartTimeRef (step env s ev) = max now (nextStartTimeRef s) + duration b"
    using step_slots [of env s ev] by blast
  then have "sorted_wrt (\<lambda>a b. snd a \<le> fst b) (slots_of (effects (step env s ev))) \<and>
    (\<forall>x\<in>set (slots_of (effects (step env s ev))). snd x \<le> nextStartTimeRef (step env s ev)) \<and>
    nextStartTimeRef s \<le> nextStartTimeRef (step env s ev)"
  proof cases
    case same
    with assms show ?thesis by simp
  next
    case slot
    have d: "0 \<le> duration b" by (rule duration_nonneg)
    have "\<forall>x\<in>set (slots_of (effects s)). snd x \<le> max now (nextStartTimeRef s)"
      using assms(2) by (auto simp add: max_def)
    moreover have "\<forall>x\<in>set (slots_of (effects s)).
        snd x \<le> max now (nextStartTimeRef s) + duration b"
      using assms(2) d by (auto simp add: max_def)
    moreover have "nextStartTimeRef s \<le> max now (nextStartTimeRef s) + duration b"
      using d by (simp add: max_def)
    ultimately show ?thesis
      unfolding slot using assms(1) by (simp add: sorted_wrt_append)
  qed
  then show "sorted_wrt (\<lambda>a b. snd a \<le> fst b) (slots_of (effects (step env s ev)))"
    and "\<forall>x\<in>set (slots_of (effects (step env s ev))). snd x \<le> nextStartTimeRef (step env s ev)"
    and "nextStartTimeRef s \<le> nextStartTimeRef (step env s ev)"
    by simp_all
qed

lemma run_schedule:
  assumes "sorted_wrt (\<lambda>a b. snd a \<le> fst b) (slots_of (effects s))"
    and "\<forall>x\<in>set (slots_of (effects s)). snd x \<le> nextStartTimeRef s"
  shows "sorted_wrt (\<lambda>a b. snd a \<le> fst b) (slots_of (effects (run env s evs))) \<and>
    (\<forall>x\<in>set (slots_of (effects (run env s evs))). snd x \<le> nextStartTimeRef (run env s evs)) \<and>
    nextStartTimeRef s \<le> nextStartTimeRef (run env s evs)"
  using assms
proof (induction evs arbitrary: s)
  case Nil
  then show ?case by (simp add: run_def)
next
  case (Cons ev evs)
  have r: "run env s (ev # evs) = run env (step env s ev) evs" by (simp add: run_def)
  note st = step_schedule [OF Cons.prems, of env ev]
  from Cons.IH [OF st(1,2)] st(3) show ?case unfolding r by simp
qed

lemma run_append: "run env s (evs @ later) = run env (run env s evs) later"
  by (simp add: run_def)

text \<open>
  C1. Whatever events a session sees and whenever its audio chunks arrive, the slots the
  scheduler produces do not overlap: a slot ends before every later slot starts, so
  slot \<open>n + 1\<close> never starts before the end of slot \<open>n\<close>; \<^verbatim>\<open>nextStartTimeRef\<close> never
  decreases; and a decoded chunk that arrives at \<open>now\<close> is scheduled at
  \<open>start = max now nextStartTime\<close>, after which \<open>nextStartTime = start + duration\<close>.
\<close>

theorem playback_slots_disjoint:
  assumes "slots_of (effects s0) = []"
  shows "(\<forall>i j. i < j \<and> j < length (slots_of (effects (run env s0 evs))) \<longrightarrow>
            snd (slots_of (effects (run env s0 evs)) ! i) \<le>
            fst (slots_of (effects (run env s0 evs)) ! j)) \<and>
         nextStartTimeRef (run env s0 evs) \<le> nextStartTimeRef (run env s0 (evs @ later)) \<and>
         (audioContextRef s \<noteq> None \<and> audioData m = Some chunk \<and> chunk \<noteq> [] \<and>
          decodeAudioData (atob env) chunk = Inr buffer \<longrightarrow>
            slots_of (effects (step env s (ServerMessage now m))) = slots_of (effects s) @
              [(max now (nextStartTimeRef s), max now (nextStartTimeRef s) + duration buffer)] \<and>
            nextStartTimeRef (step env s (ServerMessage now m)) =
              max now (nextStartTimeRef s) + duration buffer)"
proof -
  have i: "sorted_wrt (\<lambda>a b. snd a \<le> fst b) (slots_of (effects s0))"
    "\<forall>x\<in>set (slots_of (effects s0)). snd x \<le> nextStartTimeRef s0"
    using assms by simp_all
  note r = run_schedule [OF i, of env evs]
  from r have "\<forall>i j. i < j \<and> j < length (slots_of (effects (run env s0 evs))) \<longrightarrow>
            snd (slots_of (effects (run env s0 evs)) ! i) \<le>
            fst (slots_of (effects (run env s0 evs)) ! j)"
    by (simp add: sorted_wrt_iff_nth_less)
  moreover have "nextStartTimeRef (run env s0 evs) \<le> nextStartTimeRef (run env s0 (evs @ later))"
    unfolding run_append using run_schedule [of "run env s0 evs" env later] r by simp
  moreover have "slots_of (effects (step env s (ServerMessage now m))) = slots_of (effects s) @
              [(max now (nextStartTimeRef s), max now (nextStartTimeRef s) + duration buffer)] \<and>
            nextStartTimeRef (step env s (ServerMessage now m)) =
              max now (nextStartTimeRef s) + duration buffer"
    if "audioContextRef s \<noteq> None \<and> audioData m = Some chunk \<and> chunk \<noteq> [] \<and>
          decodeAudioData (atob env) chunk = Inr buffer"
    using that onmessage_slot [of s m chunk env buffer now] by (simp add: step_def job_slots)
  ultimately show ?thesis by blast
qed


theorem playback_slots_disjoint_witness:
  "slots_of (effects (run (offline True) ((initial True)\<lparr>audioContextRef := Some 24000\<rparr>)
      [ServerMessage 0 \<lparr>audioData = Some ''/n8='', toolCall = None\<rparr>,
       ServerMessage 0 \<lparr>audioData = Some ''/n8='', toolCall = None\<rparr>,
       ServerMessage 5 \<lparr>audioData = Some ''/n8='', toolCall = None\<rparr>])) =
     [(0, 1 / 24000), (1 / 24000, 2 / 24000), (5, 5 + 1 / 24000)] \<and>
   snd (slots_of (effects (run (offline True) ((initial True)\<lparr>audioContextRef := Some 24000\<rparr>)
      [ServerMessage 0 \<lparr>audioData = Some ''/n8='', toolCall = None\<rparr>,
       ServerMessage 0 \<lparr>audioData = Some ''/n8='', toolCall = None\<rparr>,
       ServerMessage 5 \<lparr>audioData = Some ''/n8='', toolCall = None\<rparr>])) ! 0) \<le>
   fst (slots_of (effects (run (offline True) ((initial True)\<lparr>audioContextRef := Some 24000\<rparr>)
      [ServerMessage 0 \<lparr>audioData = Some ''/n8='', toolCall = None\<rparr>,
       ServerMessage 0 \<lparr>audioData = Some ''/n8='', toolCall = None\<rparr>,
       ServerMessage 5 \<lparr>audioData = Some ''/n8='', toolCall = None\<rparr>])) ! 1)"
proof -
  let ?s = "(initial True)\<lparr>audioContextRef := Some 24000\<rparr>"
  let ?m = "\<lparr>audioData = Some ''/n8='', toolCall = None\<rparr>"
  let ?evs = "[ServerMessage 0 ?m, ServerMessage 0 ?m, ServerMessage 5 ?m]"
  have d: "decodeAudioData (atob (offline True)) ''/n8='' =
      Inr \<lparr>channelData = [16383 / 16384], sampleRate = 24000\<rparr>"
    using example_decode by (simp add: offline_def)
  have e: "slots_of (effects (run (offline True) ?s ?evs)) =
     [(0, 1 / 24000), (1 / 24000, 2 / 24000), (5, 5 + 1 / 24000)]"
    by (simp add: run_def step_def job_def drain_eq onmessage_def play_audio_def d emit_def
        Let_def duration_def initial_def)
  have h: "slots_of (effects ?s) = []" by (simp add: initial_def)
  from playback_slots_disjoint [OF h, of "offline True" ?evs]
  have "\<forall>i j. i < j \<and> j < length (slots_of (effects (run (offline True) ?s ?evs))) \<longrightarrow>
            snd (slots_of (effects (run (offline True) ?s ?evs)) ! i) \<le>
            fst (slots_of (effects (run (offline True) ?s ?evs)) ! j)"
    by (rule conjunct1)
  then have "0 < (1::nat) \<and> 1 < length (slots_of (effects (run (offline True) ?s ?evs))) \<longrightarrow>
            snd (slots_of (effects (run (offline True) ?s ?evs)) ! 0) \<le>
            fst (slots_of (effects (run (offline True) ?s ?evs)) ! 1)"
    by blast
  moreover have "1 < length (slots_of (effects (run (offline True) ?s ?evs)))"
    unfolding e by simp
  ultimately have "snd (slots_of (effects (run (offline True) ?s ?evs)) ! 0) \<le>
            fst (slots_of (effects (run (offline True) ?s ?evs)) ! 1)"
    by simp
  with e show ?thesis by (intro conjI)
qed

end
